theory Spec2Isabelle
  imports Main "HOL-Library.Log_Nat" "HOL-Library.Multiset"
begin

section \<open>The marketplace listing service (\<^verbatim>\<open>server.js\<close>)\<close>

text \<open>
  The program is one file: it connects to a document store at startup, keeps the
  handle of the \<^verbatim>\<open>products\<close> collection in the module variable
  \<^verbatim>\<open>productsCollection\<close>, and serves \<^verbatim>\<open>POST /api/products\<close> and
  \<^verbatim>\<open>GET /api/products\<close>.

  What the file calls but does not define is the environment of the model:
  \<^item> the language built-ins \<^verbatim>\<open>parseFloat\<close>, property access and \<^verbatim>\<open>new Date()\<close>;
  \<^item> the store driver (\<^verbatim>\<open>connect\<close>, \<^verbatim>\<open>command\<close>, \<^verbatim>\<open>insertOne\<close>,
    \<^verbatim>\<open>find().sort().toArray()\<close>, \<^verbatim>\<open>close\<close>), whose promises resolve or reject;
  \<^item> \<^verbatim>\<open>new URL(uri).pathname\<close>;
  \<^item> the web framework, which hands the handler a parsed body and takes a status
    and a value to send.
  Each is written out below where the file's behaviour depends on it, and is an
  input of the model where it is a choice of the outside world (the clock reading,
  whether a store call resolves, the identifier the driver generates, the order in
  which the store returns documents of equal sort key, the parsed path of the
  connection string). Console output is not modelled.
\<close>

subsection \<open>Values\<close>

text \<open>
  A number value is a double: not-a-number, the two infinities, negative zero, or a
  finite double given by its exact rational value (\<open>Finite 0\<close> is positive zero).
\<close>

datatype jsnum = NaN | PosInfinity | NegInfinity | NegZero | Finite rat

text \<open>
  A string of the request body is the list of its UTF-16 code units, each a number
  from 0 to 65535. \<open>js\<close> gives the code units of a literal of this file.
\<close>

type_synonym jsstring = "int list"

definition js :: "string \<Rightarrow> jsstring" where
  "js s = map of_char s"

text \<open>
  The values a parsed JSON body holds, and \<open>Undefined\<close> for what is absent. An
  object is the list of its own properties.
\<close>

datatype jsval =
    Undefined
  | Null
  | Bool bool
  | Num jsnum
  | Str jsstring
  | Arr "jsval list"
  | Obj "(jsstring \<times> jsval) list"

subsection \<open>Rounding a rational to a double\<close>

definition pow2 :: "int \<Rightarrow> rat" where
  "pow2 k = (if 0 \<le> k then 2 ^ nat k else 1 / 2 ^ nat (- k))"

definition pow10 :: "int \<Rightarrow> rat" where
  "pow10 k = (if 0 \<le> k then 10 ^ nat k else 1 / 10 ^ nat (- k))"

text \<open>\<open>ilog2 q\<close> is the integer \<open>e\<close> with \<open>2^e \<le> q < 2^(e+1)\<close>, for positive \<open>q\<close>.\<close>

definition ilog2 :: "rat \<Rightarrow> int" where
  "ilog2 q =
     (let (a, b) = quotient_of q;
          k = bitlen a - bitlen b
      in if pow2 k \<le> q then k else k - 1)"

definition round_half_even :: "rat \<Rightarrow> int" where
  "round_half_even r =
     (let f = \<lfloor>r\<rfloor>; d = r - of_int f
      in if d < 1 / 2 then f
         else if 1 / 2 < d then f + 1
         else if even f then f else f + 1)"

text \<open>
  The double nearest to a non-negative rational, ties to the even significand. With
  \<open>e\<close> the binary exponent, no smaller than \<open>-1022\<close> (subnormals), the unit in
  the last place is \<open>2^(e - 52)\<close> and the significand \<open>m\<close> is the rational in
  those units, rounded. What would round to \<open>2^1024\<close> is infinite.
\<close>

definition to_double :: "rat \<Rightarrow> jsnum" where
  "to_double q =
     (if q \<le> 0 then Finite 0
      else let e = max (ilog2 q) (- 1022)
           in if 1024 \<le> e then PosInfinity
              else let m = round_half_even (q * pow2 (52 - e))
                   in if e = 1023 \<and> m = 2 ^ 53 then PosInfinity
                      else Finite (of_int m * pow2 (e - 52)))"

fun negate :: "jsnum \<Rightarrow> jsnum" where
  "negate NaN = NaN"
| "negate PosInfinity = NegInfinity"
| "negate NegInfinity = PosInfinity"
| "negate NegZero = Finite 0"
| "negate (Finite r) = (if r = 0 then NegZero else Finite (- r))"

subsection \<open>\<^verbatim>\<open>parseFloat\<close>\<close>

text \<open>
  \<^verbatim>\<open>parseFloat(v)\<close> converts \<open>v\<close> to a string, drops leading white space, and
  takes the longest prefix that is a decimal literal:
  an optional sign, then \<^verbatim>\<open>Infinity\<close>, or digits with an optional fraction, or a
  fraction alone, then an optional exponent. With no such prefix the result is
  not-a-number. What follows the prefix is ignored.

  White space is what the language trims: tab, line feed, vertical tab, form feed,
  carriage return, space, no-break space, U+1680, U+2000 to U+200A, the line and
  paragraph separators U+2028 and U+2029, U+202F, U+205F, U+3000 and U+FEFF.
\<close>

definition is_whitespace :: "int \<Rightarrow> bool" where
  "is_whitespace c =
     (c \<in> {0x9, 0xA, 0xB, 0xC, 0xD, 0x20, 0xA0, 0x1680, 0x2028, 0x2029, 0x202F, 0x205F,
            0x3000, 0xFEFF} \<or>
      (0x2000 \<le> c \<and> c \<le> 0x200A))"

definition is_digit :: "int \<Rightarrow> bool" where
  "is_digit c = (48 \<le> c \<and> c \<le> 57)"

definition digits_val :: "jsstring \<Rightarrow> int" where
  "digits_val ds = foldl (\<lambda>n c. 10 * n + (c - 48)) 0 ds"

definition strip_sign :: "jsstring \<Rightarrow> bool \<times> jsstring" where
  "strip_sign s =
     (case s of
        [] \<Rightarrow> (False, s)
      | c # t \<Rightarrow> if c = of_char CHR ''-'' then (True, t)
                 else if c = of_char CHR ''+'' then (False, t)
                 else (False, s))"

text \<open>The exponent part: \<^verbatim>\<open>e\<close> or \<^verbatim>\<open>E\<close>, an optional sign, at least one digit.
  Without a digit the exponent is not part of the literal.\<close>

definition scan_exponent :: "jsstring \<Rightarrow> int \<times> jsstring" where
  "scan_exponent s =
     (case s of
        [] \<Rightarrow> (0, s)
      | c # t \<Rightarrow>
          if c = of_char CHR ''e'' \<or> c = of_char CHR ''E'' then
            (let (neg, t') = strip_sign t;
                 ds = takeWhile is_digit t'
             in if ds = [] then (0, s)
                else ((if neg then - digits_val ds else digits_val ds),
                      dropWhile is_digit t'))
          else (0, s))"

text \<open>
  The unsigned literal at the start of a string: \<open>None\<close> when there is none, else its
  value (\<open>None\<close> for \<^verbatim>\<open>Infinity\<close>, else the exact decimal value) and the rest.
\<close>

definition scan_unsigned :: "jsstring \<Rightarrow> (rat option \<times> jsstring) option" where
  "scan_unsigned s =
     (if take 8 s = js ''Infinity'' then Some (None, drop 8 s)
      else
        let ip = takeWhile is_digit s;
            r1 = dropWhile is_digit s;
            (fp, r2) = (case r1 of
                          [] \<Rightarrow> ([], r1)
                        | c # t \<Rightarrow> if c = of_char CHR ''.''
                                   then (takeWhile is_digit t, dropWhile is_digit t)
                                   else ([], r1))
        in if ip = [] \<and> fp = [] then None
           else let (ex, r3) = scan_exponent r2
                in Some (Some (of_int (digits_val (ip @ fp)) * pow10 (ex - int (length fp))),
                         r3))"

definition parseFloat_text :: "jsstring \<Rightarrow> jsnum" where
  "parseFloat_text s =
     (let (neg, u) = strip_sign (dropWhile is_whitespace s)
      in case scan_unsigned u of
           None \<Rightarrow> NaN
         | Some (None, _) \<Rightarrow> if neg then NegInfinity else PosInfinity
         | Some (Some q, _) \<Rightarrow> if neg then negate (to_double q) else to_double q)"

text \<open>
  Converting a value to a string can throw. An object is converted by its
  \<^verbatim>\<open>toString\<close> method, else by \<^verbatim>\<open>valueOf\<close>, and the conversion throws a
  \<^verbatim>\<open>TypeError\<close> when neither gives a primitive. A parsed object inherits both; its
  own properties are data, never functions. So an object with an own property
  \<^verbatim>\<open>toString\<close> hides the inherited method, \<^verbatim>\<open>valueOf\<close> (its own, not callable, or
  the inherited one, which returns the object) gives no primitive, and the conversion
  throws; every other parsed object converts to \<^verbatim>\<open>[object Object]\<close>. An array
  converts each of its elements other than \<^verbatim>\<open>null\<close> and \<^verbatim>\<open>undefined\<close>, so it
  throws when one of them does.
\<close>

fun cannot_convert :: "jsval \<Rightarrow> bool" where
  "cannot_convert (Obj kvs) = (js ''toString'' \<in> fst ` set kvs)"
| "cannot_convert (Arr vs) = (\<exists>v \<in> set vs. cannot_convert v)"
| "cannot_convert v = False"

text \<open>
  The number \<^verbatim>\<open>parseFloat\<close> reads from the string of a value that converts.
  A number prints as a literal that reads as itself, except that negative zero
  prints as \<^verbatim>\<open>0\<close>; \<^verbatim>\<open>undefined\<close>, \<^verbatim>\<open>null\<close>, \<^verbatim>\<open>true\<close>, \<^verbatim>\<open>false\<close> and
  \<^verbatim>\<open>[object Object]\<close> have no numeric prefix. An array prints its elements
  separated by commas, \<^verbatim>\<open>null\<close> and \<^verbatim>\<open>undefined\<close> elements as empty, so only its
  first element can contribute a prefix.
\<close>

fun parsed_number :: "jsval \<Rightarrow> jsnum" where
  "parsed_number (Str s) = parseFloat_text s"
| "parsed_number (Num x) = (if x = NegZero then Finite 0 else x)"
| "parsed_number (Arr (Undefined # vs)) = NaN"
| "parsed_number (Arr (Null # vs)) = NaN"
| "parsed_number (Arr (v # vs)) = parsed_number v"
| "parsed_number (Arr []) = NaN"
| "parsed_number Undefined = NaN"
| "parsed_number Null = NaN"
| "parsed_number (Bool b) = NaN"
| "parsed_number (Obj kvs) = NaN"

text \<open>\<^verbatim>\<open>parseFloat(v)\<close>: the error's message when the conversion throws, else the
  number.\<close>

definition parseFloat :: "jsval \<Rightarrow> string + jsnum" where
  "parseFloat v =
     (if cannot_convert v then Inl ''Cannot convert object to primitive value''
      else Inr (parsed_number v))"

subsection \<open>Reading a property of the request body\<close>

text \<open>
  \<^verbatim>\<open>req.body.f\<close>: reading a property of \<^verbatim>\<open>undefined\<close> or \<^verbatim>\<open>null\<close> throws a
  \<^verbatim>\<open>TypeError\<close> (the result is the error's message, in the engine's current
  wording); an object gives its own property or \<^verbatim>\<open>undefined\<close>. None of the names
  the handler reads is a property of an array, a string, a number or a boolean, so
  those give \<^verbatim>\<open>undefined\<close>. A parsed object has each name once; in a list that
  repeats a name the first entry is the property.
\<close>

definition type_error_message :: "string \<Rightarrow> string \<Rightarrow> string" where
  "type_error_message base f =
     ''Cannot read properties of '' @ base @ '' (reading '' @ [CHR 0x27] @ f @ [CHR 0x27] @ '')''"

definition body_field :: "jsval \<Rightarrow> string \<Rightarrow> string + jsval" where
  "body_field b f =
     (case b of
        Undefined \<Rightarrow> Inl (type_error_message ''undefined'' f)
      | Null \<Rightarrow> Inl (type_error_message ''null'' f)
      | Obj kvs \<Rightarrow> Inr (case map_of kvs (js f) of None \<Rightarrow> Undefined | Some v \<Rightarrow> v)
      | _ \<Rightarrow> Inr Undefined)"

subsection \<open>Listings and the store\<close>

text \<open>
  The object \<^verbatim>\<open>productData\<close> of the POST handler: five properties set by the
  handler, and \<^verbatim>\<open>_id\<close> (here \<open>doc_id\<close>), absent until the driver sets it.
  \<open>createdAt\<close> is a date, in milliseconds since the epoch.
\<close>

record listing =
  productName :: jsval
  productDescription :: jsval
  productPrice :: jsnum
  contactInfo :: jsval
  createdAt :: int
  doc_id :: "nat option"

text \<open>A promise of the driver resolves with a value or rejects with an error message.\<close>

datatype 'a outcome = Resolves 'a | Rejects string

text \<open>
  A collection is named by its database and its own name; the store maps the name to
  the collection's documents, in insertion order.
\<close>

type_synonym collection = "string \<times> string"
type_synonym mongo = "collection \<Rightarrow> listing list"

text \<open>
  What the driver writes for a value: \<^verbatim>\<open>undefined\<close> is written as \<^verbatim>\<open>null\<close>, also
  inside arrays and objects; every other value of a parsed body is written as it is.
  The document written for \<^verbatim>\<open>productData\<close> has its three copied properties so
  converted; the price is a number and \<open>createdAt\<close> a date.
\<close>

fun bson :: "jsval \<Rightarrow> jsval" where
  "bson Undefined = Null"
| "bson (Arr vs) = Arr (map bson vs)"
| "bson (Obj kvs) = Obj (map (map_prod id bson) kvs)"
| "bson v = v"

definition to_document :: "listing \<Rightarrow> listing" where
  "to_document d =
     d\<lparr>productName := bson (productName d),
       productDescription := bson (productDescription d),
       contactInfo := bson (contactInfo d)\<rparr>"

text \<open>
  \<^verbatim>\<open>insertOne(doc)\<close>: when it resolves, the driver has set \<^verbatim>\<open>doc._id\<close> to a
  generated identifier if the document had none (it changes the caller's object), has
  appended the document as written, and answers with \<^verbatim>\<open>insertedId\<close>. The result
  here is the answer, the caller's object afterwards, and the documents afterwards.
\<close>

definition insertOne ::
  "nat outcome \<Rightarrow> listing \<Rightarrow> listing list \<Rightarrow> (string + nat) \<times> listing \<times> listing list" where
  "insertOne oc d docs =
     (case oc of
        Rejects m \<Rightarrow> (Inl m, d, docs)
      | Resolves fresh \<Rightarrow>
          (let i = (case doc_id d of None \<Rightarrow> fresh | Some j \<Rightarrow> j);
               d' = d\<lparr>doc_id := Some i\<rparr>
           in (Inr i, d', docs @ [to_document d'])))"

text \<open>
  \<^verbatim>\<open>find({}).sort({ createdAt: -1 }).toArray()\<close>: every document (the filter is
  empty), by \<open>createdAt\<close> descending. The store leaves the order of documents with
  equal \<open>createdAt\<close> open: each answer comes with the store's own ranking \<open>tie\<close> of
  the documents, which decides among equal \<open>createdAt\<close> (documents it ranks equal
  stay in insertion order). Sorting by the ranking first and then, stably, by
  \<open>createdAt\<close> gives that order.
\<close>

definition find_sort_toArray ::
  "(listing \<Rightarrow> nat) outcome \<Rightarrow> listing list \<Rightarrow> string + listing list" where
  "find_sort_toArray oc docs =
     (case oc of
        Rejects m \<Rightarrow> Inl m
      | Resolves tie \<Rightarrow> Inr (sort_key (\<lambda>d. - createdAt d) (sort_key tie docs)))"

subsection \<open>Responses\<close>

text \<open>
  The value a handler passes to \<^verbatim>\<open>res.status(n).json(v)\<close>:
  \<^verbatim>\<open>{ message }\<close>, \<^verbatim>\<open>{ message, insertedId, product }\<close>,
  \<^verbatim>\<open>{ message, error }\<close>, or the array of documents.
\<close>

datatype body =
    Message string
  | Created string nat listing
  | Failed string string
  | Products "listing list"

type_synonym response = "nat \<times> body"

text \<open>The calls a handler makes on the collection handle.\<close>

datatype call = InsertOneCall collection listing | FindCall collection

subsection \<open>The handlers\<close>

text \<open>
  The object literal of lines 65 to 71, in the source's order: the four reads of
  \<^verbatim>\<open>req.body\<close> and the call of \<^verbatim>\<open>parseFloat\<close> on the third; the first that
  throws ends the construction.
\<close>

definition productData :: "jsval \<Rightarrow> int \<Rightarrow> string + listing" where
  "productData b now =
     (case body_field b ''productName'' of
        Inl e \<Rightarrow> Inl e
      | Inr n \<Rightarrow>
     (case body_field b ''productDescription'' of
        Inl e \<Rightarrow> Inl e
      | Inr d \<Rightarrow>
     (case body_field b ''productPrice'' of
        Inl e \<Rightarrow> Inl e
      | Inr p \<Rightarrow>
     (case parseFloat p of
        Inl e \<Rightarrow> Inl e
      | Inr price \<Rightarrow>
     (case body_field b ''contactInfo'' of
        Inl e \<Rightarrow> Inl e
      | Inr c \<Rightarrow>
          Inr \<lparr>productName = n, productDescription = d, productPrice = price,
               contactInfo = c, createdAt = now, doc_id = None\<rparr>)))))"

text \<open>
  \<^verbatim>\<open>app.post('/api/products', ...)\<close>, lines 58 to 86. Arguments: the module
  variable \<^verbatim>\<open>productsCollection\<close>, \<^verbatim>\<open>req.body\<close>, the reading of
  \<^verbatim>\<open>new Date()\<close>, how \<^verbatim>\<open>insertOne\<close> settles if it is called, and the store.
  Result: the response, the calls made on the handle, and the store. What is thrown
  while \<^verbatim>\<open>productData\<close> is built is caught by line 79, like a rejected insertion.
\<close>

definition post_products ::
  "collection option \<Rightarrow> jsval \<Rightarrow> int \<Rightarrow> nat outcome \<Rightarrow> mongo \<Rightarrow> response \<times> call list \<times> mongo" where
  "post_products pc b now oc db =
     (case pc of
        None \<Rightarrow> ((500, Message ''Database not connected.''), [], db)
      | Some h \<Rightarrow>
          (case productData b now of
             Inl e \<Rightarrow> ((400, Failed ''Error adding product'' e), [], db)
           | Inr d \<Rightarrow>
               (case insertOne oc d (db h) of
                  (Inr i, d', docs') \<Rightarrow>
                    ((201, Created ''Product added successfully'' i d'),
                     [InsertOneCall h d], db(h := docs'))
                | (Inl e, d', docs') \<Rightarrow>
                    ((400, Failed ''Error adding product'' e),
                     [InsertOneCall h d], db(h := docs')))))"

text \<open>\<^verbatim>\<open>app.get('/api/products', ...)\<close>, lines 89 to 106.\<close>

definition get_products ::
  "collection option \<Rightarrow> (listing \<Rightarrow> nat) outcome \<Rightarrow> mongo \<Rightarrow> response \<times> call list \<times> mongo" where
  "get_products pc oc db =
     (case pc of
        None \<Rightarrow> ((500, Message ''Database not connected.''), [], db)
      | Some h \<Rightarrow>
          (case find_sort_toArray oc (db h) of
             Inr products \<Rightarrow> ((200, Products products), [FindCall h], db)
           | Inl e \<Rightarrow> ((500, Failed ''Error fetching products'' e), [FindCall h], db)))"

subsection \<open>The process\<close>

text \<open>
  Loading the module calls \<^verbatim>\<open>connectToMongoDB()\<close> without awaiting it (line 53),
  starts the listener (line 109) and registers the interrupt handler (line 114). From
  then on the process reacts to events: a driver promise settles, a request arrives,
  an interrupt arrives. Its state is the module variable \<^verbatim>\<open>productsCollection\<close>,
  the point \<^verbatim>\<open>connectToMongoDB\<close> has reached, whether an interrupt handler is
  awaiting \<^verbatim>\<open>client.close()\<close>, and the exit code once \<^verbatim>\<open>process.exit\<close> has run.
\<close>

datatype startup = AwaitConnect | AwaitPing | Returned

record process =
  productsCollection :: "collection option"
  startup :: startup
  closing :: bool
  exited :: "int option"

definition start :: process where
  "start = \<lparr>productsCollection = None, startup = AwaitConnect, closing = False, exited = None\<rparr>"

text \<open>Line 39: \<^verbatim>\<open>pathname.substring(1) || 'test'\<close>.\<close>

definition dbName :: "string \<Rightarrow> string" where
  "dbName pathname = (let n = drop 1 pathname in if n = [] then ''test'' else n)"

text \<open>
  \<^verbatim>\<open>connectToMongoDB\<close> after \<^verbatim>\<open>await client.connect()\<close> (line 31): on rejection
  the \<^verbatim>\<open>catch\<close> of lines 45 to 49 exits with code 1.
\<close>

definition connect_settles :: "unit outcome \<Rightarrow> process \<Rightarrow> process" where
  "connect_settles oc p =
     (case oc of
        Resolves _ \<Rightarrow> p\<lparr>startup := AwaitPing\<rparr>
      | Rejects e \<Rightarrow> p\<lparr>exited := Some 1\<rparr>)"

text \<open>
  \<^verbatim>\<open>connectToMongoDB\<close> after the ping (line 33). \<open>pathname\<close> is
  \<^verbatim>\<open>new URL(uri).pathname\<close>, or \<open>None\<close> when the constructor throws, which the
  same \<^verbatim>\<open>catch\<close> handles. On success line 41 assigns the handle.
\<close>

definition ping_settles :: "string option \<Rightarrow> unit outcome \<Rightarrow> process \<Rightarrow> process" where
  "ping_settles pathname oc p =
     (case oc of
        Rejects e \<Rightarrow> p\<lparr>exited := Some 1\<rparr>
      | Resolves _ \<Rightarrow>
          (case pathname of
             None \<Rightarrow> p\<lparr>exited := Some 1\<rparr>
           | Some path \<Rightarrow>
               p\<lparr>productsCollection := Some (dbName path, ''products''),
                 startup := Returned\<rparr>))"

text \<open>
  The interrupt handler after \<^verbatim>\<open>await client.close()\<close> (lines 116 to 118): exit
  with code 0. If the promise rejects, nothing handles the rejection and the runtime,
  by its default, ends the process with code 1.
\<close>

definition close_settles :: "unit outcome \<Rightarrow> process \<Rightarrow> process" where
  "close_settles oc p =
     (case oc of
        Resolves _ \<Rightarrow> p\<lparr>exited := Some 0\<rparr>
      | Rejects e \<Rightarrow> p\<lparr>exited := Some 1\<rparr>)"

datatype event =
    ConnectSettles "unit outcome"
  | PingSettles "unit outcome"
  | PostRequest jsval int "nat outcome"
  | GetRequest "(listing \<Rightarrow> nat) outcome"
  | Sigint
  | CloseSettles "unit outcome"

text \<open>What an event makes the process do: the response it sends, if any, and the calls
  it makes on the collection handle.\<close>

record reaction =
  sent :: "response option"
  calls :: "call list"

definition silent :: reaction where
  "silent = \<lparr>sent = None, calls = []\<rparr>"

text \<open>
  One event. A process that has exited does nothing. A promise that settles when
  nothing awaits it does nothing. A request runs its handler, taken as one step
  together with the one store call it awaits; the event carries what the handler
  gets from outside: the body, the clock reading and how the store call settles.
\<close>

definition step :: "string option \<Rightarrow> event \<Rightarrow> process \<times> mongo \<Rightarrow> (process \<times> mongo) \<times> reaction" where
  "step pathname e s =
     (case s of (p, db) \<Rightarrow>
        if exited p \<noteq> None then (s, silent)
        else
          (case e of
             ConnectSettles oc \<Rightarrow>
               if startup p = AwaitConnect then ((connect_settles oc p, db), silent)
               else (s, silent)
           | PingSettles oc \<Rightarrow>
               if startup p = AwaitPing then ((ping_settles pathname oc p, db), silent)
               else (s, silent)
           | PostRequest b now oc \<Rightarrow>
               (case post_products (productsCollection p) b now oc db of
                  (r, cs, db') \<Rightarrow> ((p, db'), \<lparr>sent = Some r, calls = cs\<rparr>))
           | GetRequest oc \<Rightarrow>
               (case get_products (productsCollection p) oc db of
                  (r, cs, db') \<Rightarrow> ((p, db'), \<lparr>sent = Some r, calls = cs\<rparr>))
           | Sigint \<Rightarrow> ((p\<lparr>closing := True\<rparr>, db), silent)
           | CloseSettles oc \<Rightarrow>
               if closing p then ((close_settles oc p, db), silent)
               else (s, silent)))"

fun run :: "string option \<Rightarrow> event list \<Rightarrow> process \<times> mongo \<Rightarrow> (process \<times> mongo) \<times> reaction list" where
  "run pathname [] s = (s, [])"
| "run pathname (e # es) s =
     (case step pathname e s of
        (s', out) \<Rightarrow> (case run pathname es s' of (s'', outs) \<Rightarrow> (s'', out # outs)))"

subsection \<open>Vocabulary of the properties\<close>

text \<open>The response of both handlers while \<^verbatim>\<open>productsCollection\<close> is unset.\<close>

definition not_connected :: response where
  "not_connected = (500, Message ''Database not connected.'')"

text \<open>Two bodies give the same result for each of the four property reads of the
  POST handler.\<close>

definition same_listing_fields :: "jsval \<Rightarrow> jsval \<Rightarrow> bool" where
  "same_listing_fields b b' =
     (\<forall>f \<in> set [''productName'', ''productDescription'', ''productPrice'', ''contactInfo''].
        body_field b f = body_field b' f)"

text \<open>The handle is set only by the last step of \<^verbatim>\<open>connectToMongoDB\<close>.\<close>

definition assigned_after_startup :: "process \<times> mongo \<Rightarrow> bool" where
  "assigned_after_startup s =
     (productsCollection (fst s) \<noteq> None \<longrightarrow> startup (fst s) = Returned)"

text \<open>
  \<open>listed_before x y xs\<close>: \<open>y\<close> occurs in \<open>xs\<close>, and only after the first \<open>x\<close>.
\<close>

definition listed_before :: "'a \<Rightarrow> 'a \<Rightarrow> 'a list \<Rightarrow> bool" where
  "listed_before x y xs =
     (y \<in> set (dropWhile (\<lambda>z. z \<noteq> x) xs) \<and> y \<notin> set (takeWhile (\<lambda>z. z \<noteq> x) xs))"

text \<open>A value as parsing gives it: \<^verbatim>\<open>undefined\<close> occurs nowhere in it.\<close>

fun parsed :: "jsval \<Rightarrow> bool" where
  "parsed Undefined = False"
| "parsed (Arr vs) = (\<forall>v \<in> set vs. parsed v)"
| "parsed (Obj kvs) = (\<forall>v \<in> snd ` set kvs. parsed v)"
| "parsed v = True"

text \<open>
  A string starts with a decimal literal: after white space and an optional sign comes
  \<^verbatim>\<open>Infinity\<close>, a digit, or a point and a digit.
\<close>

definition starts_numeric :: "jsstring \<Rightarrow> bool" where
  "starts_numeric s =
     (let u = snd (strip_sign (dropWhile is_whitespace s))
      in take 8 u = js ''Infinity'' \<or>
         (case u of
            [] \<Rightarrow> False
          | c # t \<Rightarrow> is_digit c \<or>
                     (c = of_char CHR ''.'' \<and>
                      (case t of [] \<Rightarrow> False | c' # t' \<Rightarrow> is_digit c'))))"

text \<open>The same for any value: a string that starts with a literal, a number other than
  not-a-number, or an array whose first element is such a value.\<close>

fun has_numeric_prefix :: "jsval \<Rightarrow> bool" where
  "has_numeric_prefix (Str s) = starts_numeric s"
| "has_numeric_prefix (Num x) = (x \<noteq> NaN)"
| "has_numeric_prefix (Arr (Undefined # vs)) = False"
| "has_numeric_prefix (Arr (Null # vs)) = False"
| "has_numeric_prefix (Arr (v # vs)) = has_numeric_prefix v"
| "has_numeric_prefix (Arr []) = False"
| "has_numeric_prefix Undefined = False"
| "has_numeric_prefix Null = False"
| "has_numeric_prefix (Bool b) = False"
| "has_numeric_prefix (Obj kvs) = False"

text \<open>
  A string is numeric as a whole: it is a decimal literal, with nothing but white space
  around it.
\<close>

definition numeric_text :: "jsstring \<Rightarrow> bool" where
  "numeric_text s =
     (case scan_unsigned (snd (strip_sign (dropWhile is_whitespace s))) of
        None \<Rightarrow> False
      | Some (v, rest) \<Rightarrow> dropWhile is_whitespace rest = [])"

subsection \<open>Sample data\<close>

definition tomatoes :: jsval where
  "tomatoes =
     Obj [(js ''productName'', Str (js ''Tomatoes'')),
          (js ''productDescription'', Str (js ''Fresh'')),
          (js ''productPrice'', Str (js ''3.50'')),
          (js ''contactInfo'', Str (js ''farmer@example.com''))]"

definition tomatoes_extra :: jsval where
  "tomatoes_extra =
     Obj [(js ''_id'', Str (js ''507f1f77bcf86cd799439011'')),
          (js ''createdAt'', Str (js ''1970-01-01T00:00:00.000Z'')),
          (js ''productName'', Str (js ''Tomatoes'')),
          (js ''productDescription'', Str (js ''Fresh'')),
          (js ''productPrice'', Str (js ''3.50'')),
          (js ''contactInfo'', Str (js ''farmer@example.com'')),
          (js ''admin'', Bool True)]"

definition no_documents :: mongo where
  "no_documents = (\<lambda>c. [])"

definition onions :: jsval where
  "onions =
     Obj [(js ''productName'', Str (js ''Onions'')),
          (js ''productDescription'', Str (js ''Red'')),
          (js ''productPrice'', Num (Finite 2)),
          (js ''contactInfo'', Str (js ''grower@example.com''))]"

text \<open>The sample body with another price.\<close>

definition priced :: "jsval \<Rightarrow> jsval" where
  "priced v =
     Obj [(js ''productName'', Str (js ''Tomatoes'')),
          (js ''productDescription'', Str (js ''Fresh'')),
          (js ''productPrice'', v),
          (js ''contactInfo'', Str (js ''farmer@example.com''))]"

text \<open>The sample body without a description.\<close>

definition undescribed :: jsval where
  "undescribed =
     Obj [(js ''productName'', Str (js ''Tomatoes'')),
          (js ''productPrice'', Str (js ''3.50'')),
          (js ''contactInfo'', Str (js ''farmer@example.com''))]"

text \<open>The price \<^verbatim>\<open>{"toString": 1}\<close>.\<close>

definition unprintable :: jsval where
  "unprintable = Obj [(js ''toString'', Num (Finite 1))]"

text \<open>A process whose startup has succeeded, for the database \<^verbatim>\<open>shop\<close>.\<close>

definition ready :: process where
  "ready = start\<lparr>productsCollection := Some (''shop'', ''products''), startup := Returned\<rparr>"

text \<open>The listings the handler builds from the sample bodies.\<close>

definition tomatoes_stored :: "jsnum \<Rightarrow> int \<Rightarrow> nat option \<Rightarrow> listing" where
  "tomatoes_stored price t i =
     \<lparr>productName = Str (js ''Tomatoes''), productDescription = Str (js ''Fresh''),
      productPrice = price, contactInfo = Str (js ''farmer@example.com''),
      createdAt = t, doc_id = i\<rparr>"

definition onions_stored :: "int \<Rightarrow> nat option \<Rightarrow> listing" where
  "onions_stored t i =
     \<lparr>productName = Str (js ''Onions''), productDescription = Str (js ''Red''),
      productPrice = Finite 2, contactInfo = Str (js ''grower@example.com''),
      createdAt = t, doc_id = i\<rparr>"

text \<open>Two rankings a store may use among documents of equal \<open>createdAt\<close>: none, and
  the onions first.\<close>

definition no_preference :: "listing \<Rightarrow> nat" where
  "no_preference d = 0"

definition onions_first :: "listing \<Rightarrow> nat" where
  "onions_first d = (if productName d = Str (js ''Onions'') then 0 else 1)"

text \<open>A store whose \<^verbatim>\<open>shop\<close> collection holds both samples, the onions newer.\<close>

definition two_listings :: mongo where
  "two_listings =
     no_documents((''shop'', ''products'') :=
       [tomatoes_stored (Finite (7 / 2)) 1000 (Some 11), onions_stored 1001 (Some 12)])"

text \<open>The same with both stamped 1000.\<close>

definition tied_listings :: mongo where
  "tied_listings =
     no_documents((''shop'', ''products'') :=
       [tomatoes_stored (Finite (7 / 2)) 1000 (Some 11), onions_stored 1000 (Some 12)])"

section \<open>Properties\<close>

lemmas machine_defs = step_def silent_def start_def connect_settles_def ping_settles_def
  close_settles_def post_products_def get_products_def insertOne_def find_sort_toArray_def
  productData_def body_field_def dbName_def no_documents_def no_preference_def

text \<open>Literals with the same code units are the same literal.\<close>

lemma js_eq_iff [simp]: "js s = js t \<longleftrightarrow> s = t"
  unfolding js_def by (rule inj_map_eq_map) (simp add: inj_on_def)

subsection \<open>Runs\<close>

lemma step_exited: "exited (fst s) \<noteq> None \<Longrightarrow> step pathname e s = (s, silent)"
  by (cases s) (simp add: step_def)

lemma run_exited:
  "exited (fst s) \<noteq> None \<Longrightarrow> run pathname es s = (s, replicate (length es) silent)"
  by (induction es) (simp_all add: step_exited)

lemma run_Cons_fst:
  "fst (run pathname (e # es) s) = fst (run pathname es (fst (step pathname e s)))"
  by (simp split: prod.splits)

lemma run_Cons_snd:
  "snd (run pathname (e # es) s) =
     snd (step pathname e s) # snd (run pathname es (fst (step pathname e s)))"
  by (simp split: prod.splits)

text \<open>Every way an event can change the process state.\<close>

lemma step_process_cases:
  "fst (fst (step pathname e (p, db))) = p \<or>
   fst (fst (step pathname e (p, db))) = p\<lparr>closing := True\<rparr> \<or>
   (\<exists>c. fst (fst (step pathname e (p, db))) = p\<lparr>exited := Some c\<rparr>) \<or>
   (startup p = AwaitConnect \<and>
      fst (fst (step pathname e (p, db))) = p\<lparr>startup := AwaitPing\<rparr>) \<or>
   (startup p = AwaitPing \<and>
      (\<exists>path. pathname = Some path \<and>
         fst (fst (step pathname e (p, db))) =
           p\<lparr>productsCollection := Some (dbName path, ''products''), startup := Returned\<rparr>))"
  by (cases e)
     (auto simp: step_def connect_settles_def ping_settles_def close_settles_def
           split: outcome.splits option.splits prod.splits)

lemma step_not_cleared:
  "productsCollection (fst (fst (step pathname e s))) = None \<Longrightarrow>
   productsCollection (fst s) = None"
  using step_process_cases [of pathname e "fst s" "snd s"] by auto

lemma run_not_cleared:
  "productsCollection (fst (fst (run pathname es s))) = None \<Longrightarrow>
   productsCollection (fst s) = None"
proof (induction es arbitrary: s)
  case Nil
  then show ?case by simp
next
  case (Cons e es)
  from Cons.prems
  have "productsCollection (fst (fst (run pathname es (fst (step pathname e s))))) = None"
    by (simp add: run_Cons_fst del: run.simps(2))
  then have "productsCollection (fst (fst (step pathname e s))) = None"
    by (rule Cons.IH)
  then show ?case by (rule step_not_cleared)
qed

lemma step_assigned_after_startup:
  "assigned_after_startup s \<Longrightarrow> assigned_after_startup (fst (step pathname e s))"
  using step_process_cases [of pathname e "fst s" "snd s"]
  by (auto simp: assigned_after_startup_def)

lemma run_assigned_after_startup:
  "assigned_after_startup s \<Longrightarrow> assigned_after_startup (fst (run pathname es s))"
  by (induction es arbitrary: s)
     (simp_all add: run_Cons_fst step_assigned_after_startup del: run.simps(2))

lemma start_assigned_after_startup: "assigned_after_startup (start, db)"
  by (simp add: assigned_after_startup_def start_def)

lemma step_same_handle:
  "assigned_after_startup s \<Longrightarrow> productsCollection (fst s) = Some h \<Longrightarrow>
   productsCollection (fst (fst (step pathname e s))) = Some h"
  using step_process_cases [of pathname e "fst s" "snd s"]
  by (auto simp: assigned_after_startup_def)

lemma step_connected_sent:
  "productsCollection (fst s) = Some h \<Longrightarrow>
   sent (snd (step pathname e s)) \<noteq> Some not_connected"
  by (cases s; cases e)
     (auto simp: step_def silent_def not_connected_def post_products_def get_products_def
           insertOne_def find_sort_toArray_def Let_def
           split: outcome.splits option.splits prod.splits sum.splits)

lemma step_unconnected_quiet:
  "productsCollection (fst s) = None \<Longrightarrow>
   calls (snd (step pathname e s)) = [] \<and>
   (sent (snd (step pathname e s)) = None \<or>
    sent (snd (step pathname e s)) = Some not_connected)"
  by (cases s; cases e)
     (auto simp: step_def silent_def not_connected_def post_products_def get_products_def)

lemma run_unconnected_quiet:
  "productsCollection (fst (fst (run pathname es s))) = None \<Longrightarrow>
   \<forall>r \<in> set (snd (run pathname es s)).
     calls r = [] \<and> (sent r = None \<or> sent r = Some not_connected)"
proof (induction es arbitrary: s)
  case Nil
  then show ?case by simp
next
  case (Cons e es)
  let ?s1 = "fst (step pathname e s)"
  from Cons.prems have final: "productsCollection (fst (fst (run pathname es ?s1))) = None"
    by (simp add: run_Cons_fst del: run.simps(2))
  then have "productsCollection (fst ?s1) = None"
    by (rule run_not_cleared)
  then have "productsCollection (fst s) = None"
    by (rule step_not_cleared)
  then have first: "calls (snd (step pathname e s)) = [] \<and>
      (sent (snd (step pathname e s)) = None \<or>
       sent (snd (step pathname e s)) = Some not_connected)"
    by (rule step_unconnected_quiet)
  from Cons.IH [OF final] first show ?case
    by (simp add: run_Cons_snd del: run.simps(2))
qed

lemma run_same_handle:
  "assigned_after_startup s \<Longrightarrow> productsCollection (fst s) = Some h \<Longrightarrow>
   productsCollection (fst (fst (run pathname es s))) = Some h \<and>
   (\<forall>r \<in> set (snd (run pathname es s)). sent r \<noteq> Some not_connected)"
proof (induction es arbitrary: s)
  case Nil
  then show ?case by simp
next
  case (Cons e es)
  let ?s1 = "fst (step pathname e s)"
  have inv: "assigned_after_startup ?s1"
    using Cons.prems(1) by (rule step_assigned_after_startup)
  have h: "productsCollection (fst ?s1) = Some h"
    using Cons.prems by (rule step_same_handle)
  have "sent (snd (step pathname e s)) \<noteq> Some not_connected"
    using Cons.prems(2) by (rule step_connected_sent)
  with Cons.IH [OF inv h] show ?case
    by (simp add: run_Cons_fst run_Cons_snd del: run.simps(2))
qed

lemma productData_same:
  assumes "same_listing_fields b b'"
  shows "productData b = productData b'"
  using assms
  by (intro ext) (simp add: same_listing_fields_def productData_def cong: sum.case_cong)

subsection \<open>Evaluating \<^verbatim>\<open>parseFloat\<close>\<close>

text \<open>For a value that converts, the result is not-a-number exactly when the value
  has no numeric prefix.\<close>

lemma to_double_not_NaN: "to_double q \<noteq> NaN" "negate (to_double q) \<noteq> NaN"
  by (auto simp: to_double_def Let_def)

lemma scan_unsigned_None_iff:
  "scan_unsigned u = None \<longleftrightarrow>
     \<not> (take 8 u = js ''Infinity'' \<or>
        (case u of
            [] \<Rightarrow> False
          | c # t \<Rightarrow> is_digit c \<or>
                     (c = of_char CHR ''.'' \<and>
                      (case t of [] \<Rightarrow> False | c' # t' \<Rightarrow> is_digit c'))))"
proof (cases "take 8 u = js ''Infinity''")
  case True
  then show ?thesis by (simp add: scan_unsigned_def)
next
  case False
  show ?thesis
  proof (cases u)
    case Nil
    with False show ?thesis by (simp add: scan_unsigned_def)
  next
    case (Cons c t)
    show ?thesis
    proof (cases "is_digit c")
      case True
      with False Cons show ?thesis
        by (simp add: scan_unsigned_def Let_def split: prod.splits list.splits)
    next
      case nd: False
      have "\<not> is_digit (of_char CHR ''.'')" by (simp add: is_digit_def)
      with False Cons nd show ?thesis
        by (cases t) (auto simp: scan_unsigned_def Let_def split: prod.splits)
    qed
  qed
qed

lemma parseFloat_text_NaN_iff: "parseFloat_text s = NaN \<longleftrightarrow> \<not> starts_numeric s"
proof -
  obtain neg u where su: "strip_sign (dropWhile is_whitespace s) = (neg, u)"
    by (cases "strip_sign (dropWhile is_whitespace s)")
  have "parseFloat_text s = NaN \<longleftrightarrow> scan_unsigned u = None"
    using su by (auto simp: parseFloat_text_def to_double_not_NaN split: option.splits)
  also have "\<dots> \<longleftrightarrow> \<not> starts_numeric s"
    using su by (simp add: scan_unsigned_None_iff starts_numeric_def)
  finally show ?thesis .
qed

lemma parsed_number_NaN_iff: "parsed_number v = NaN \<longleftrightarrow> \<not> has_numeric_prefix v"
  by (induction v rule: parsed_number.induct) (simp_all add: parseFloat_text_NaN_iff)

lemma parseFloat_Inr_iff: "parseFloat v = Inr x \<longleftrightarrow> \<not> cannot_convert v \<and> x = parsed_number v"
  by (auto simp: parseFloat_def)

lemma parseFloat_Inl_iff:
  "parseFloat v = Inl e \<longleftrightarrow>
     cannot_convert v \<and> e = ''Cannot convert object to primitive value''"
  by (auto simp: parseFloat_def)

lemma parseFloat_abc: "parseFloat (Str (js ''abc'')) = Inr NaN"
  by code_simp

lemma parseFloat_3_50: "parseFloat (Str (js ''3.50'')) = Inr (Finite (7 / 2))"
  by code_simp

lemma parseFloat_12abc: "parseFloat (Str (js ''12abc'')) = Inr (Finite 12)"
  by code_simp

lemma parseFloat_2: "parseFloat (Num (Finite 2)) = Inr (Finite 2)"
  by (simp add: parseFloat_def)

lemma parseFloat_unprintable:
  "parseFloat unprintable = Inl ''Cannot convert object to primitive value''"
  by (simp add: parseFloat_def unprintable_def)

lemma not_numeric_12abc: "\<not> numeric_text (js ''12abc'')"
  by code_simp

lemma numeric_3_50: "numeric_text (js ''3.50'')"
  by code_simp

text \<open>White space beyond the first 256 code units is skipped too.\<close>

lemma parseFloat_line_separator:
  "parseFloat (Str ([0x2028, 0xFEFF] @ js ''3.50'')) = Inr (Finite (7 / 2))"
  by code_simp

subsection \<open>Step equations\<close>

lemma productData_fresh:
  "productData b now = Inr d \<Longrightarrow> doc_id d = None \<and> createdAt d = now"
  by (auto simp: productData_def split: sum.splits)

lemma to_document_simps [simp]:
  "createdAt (to_document d) = createdAt d"
  "doc_id (to_document d) = doc_id d"
  "productPrice (to_document d) = productPrice d"
  by (simp_all add: to_document_def)

lemma step_post_created:
  assumes "productsCollection p = Some h" and "exited p = None"
    and "productData b now = Inr d"
  shows "step pathname (PostRequest b now (Resolves i)) (p, db) =
           ((p, db(h := db h @ [to_document (d\<lparr>doc_id := Some i\<rparr>)])),
            \<lparr>sent = Some (201, Created ''Product added successfully'' i (d\<lparr>doc_id := Some i\<rparr>)),
             calls = [InsertOneCall h d]\<rparr>)"
  using assms productData_fresh [OF assms(3)]
  by (simp add: step_def post_products_def insertOne_def Let_def)

lemma step_post_thrown:
  assumes "productsCollection p = Some h" and "exited p = None"
    and "productData b now = Inl e"
  shows "step pathname (PostRequest b now oc) (p, db) =
           ((p, db), \<lparr>sent = Some (400, Failed ''Error adding product'' e), calls = []\<rparr>)"
  using assms by (simp add: step_def post_products_def)

lemma step_get_found:
  assumes "productsCollection p = Some h" and "exited p = None"
  shows "step pathname (GetRequest (Resolves tie)) (p, db) =
           ((p, db),
            \<lparr>sent = Some (200, Products (sort_key (\<lambda>d. - createdAt d) (sort_key tie (db h)))),
             calls = [FindCall h]\<rparr>)"
  using assms by (simp add: step_def get_products_def find_sort_toArray_def)

lemma body_field_readable:
  "body_field b f = Inr v \<Longrightarrow> \<exists>v'. body_field b g = Inr v'"
  by (cases b) (simp_all add: body_field_def)

text \<open>What the driver writes for a parsed value is the value.\<close>

lemma bson_parsed: "parsed v \<Longrightarrow> bson v = v"
proof (induction v rule: bson.induct)
  case (2 vs)
  then show ?case by (simp add: map_idI)
next
  case (3 kvs)
  have "map (map_prod id bson) kvs = kvs"
  proof (rule map_idI)
    fix kv assume kv: "kv \<in> set kvs"
    obtain k v where [simp]: "kv = (k, v)" by (cases kv)
    from kv "3.prems" have "parsed v" by force
    with "3.IH" kv have "bson v = v" by simp
    then show "map_prod id bson kv = kv" by simp
  qed
  then show ?case by simp
qed simp_all

subsection \<open>The samples\<close>

lemma productData_priced:
  "parseFloat v = Inr x \<Longrightarrow> productData (priced v) t = Inr (tomatoes_stored x t None)"
  by (simp add: productData_def body_field_def priced_def tomatoes_stored_def)

lemma productData_priced_thrown:
  "parseFloat v = Inl e \<Longrightarrow> productData (priced v) t = Inl e"
  by (simp add: productData_def body_field_def priced_def)

lemma productData_tomatoes:
  "productData tomatoes t = Inr (tomatoes_stored (Finite (7 / 2)) t None)"
  by (simp add: productData_def body_field_def tomatoes_def tomatoes_stored_def parseFloat_3_50)

lemma productData_onions:
  "productData onions t = Inr (onions_stored t None)"
  by (simp add: productData_def body_field_def onions_def onions_stored_def parseFloat_2)

lemma productData_undescribed:
  "productData undescribed t =
     Inr ((tomatoes_stored (Finite (7 / 2)) t None)\<lparr>productDescription := Undefined\<rparr>)"
  by (simp add: productData_def body_field_def undescribed_def tomatoes_stored_def parseFloat_3_50)

lemma ready_simps:
  "productsCollection ready = Some (''shop'', ''products'')" "exited ready = None"
  by (simp_all add: ready_def start_def)

lemma stored_doc_id:
  "(tomatoes_stored price t None)\<lparr>doc_id := Some i\<rparr> = tomatoes_stored price t (Some i)"
  "(onions_stored t None)\<lparr>doc_id := Some i\<rparr> = onions_stored t (Some i)"
  by (simp_all add: tomatoes_stored_def onions_stored_def)

lemma stored_to_document [simp]:
  "to_document (tomatoes_stored price t i) = tomatoes_stored price t i"
  "to_document (onions_stored t i) = onions_stored t i"
  by (simp_all add: to_document_def tomatoes_stored_def onions_stored_def)

lemma stored_distinct: "tomatoes_stored price t i \<noteq> onions_stored t' i'"
  by (simp add: tomatoes_stored_def onions_stored_def)

lemma sort_newer_second:
  "t1 < t2 \<Longrightarrow>
   sort_key (\<lambda>d. - createdAt d)
     (sort_key tie [tomatoes_stored price t1 i, onions_stored t2 j]) =
     [onions_stored t2 j, tomatoes_stored price t1 i]"
  by (simp add: tomatoes_stored_def onions_stored_def)

lemma sort_older_second:
  "t2 < t1 \<Longrightarrow>
   sort_key (\<lambda>d. - createdAt d)
     (sort_key tie [tomatoes_stored price t1 i, onions_stored t2 j]) =
     [tomatoes_stored price t1 i, onions_stored t2 j]"
  by (simp add: tomatoes_stored_def onions_stored_def)

lemma sort_alike_no_preference:
  "sort_key (\<lambda>d. - createdAt d)
     (sort_key no_preference [tomatoes_stored price t i, onions_stored t j]) =
     [tomatoes_stored price t i, onions_stored t j]"
  by (simp add: tomatoes_stored_def onions_stored_def no_preference_def)

lemma sort_alike_onions_first:
  "sort_key (\<lambda>d. - createdAt d)
     (sort_key onions_first [tomatoes_stored price t i, onions_stored t j]) =
     [onions_stored t j, tomatoes_stored price t i]"
  by (simp add: tomatoes_stored_def onions_stored_def onions_first_def)

lemma run_two_posts_gets:
  "snd (run pathname
     [PostRequest tomatoes t1 (Resolves i1), PostRequest onions t2 (Resolves i2),
      GetRequest (Resolves tie), GetRequest (Resolves tie')]
     (ready, no_documents)) =
   [\<lparr>sent = Some (201, Created ''Product added successfully'' i1
              (tomatoes_stored (Finite (7 / 2)) t1 (Some i1))),
     calls = [InsertOneCall (''shop'', ''products'') (tomatoes_stored (Finite (7 / 2)) t1 None)]\<rparr>,
    \<lparr>sent = Some (201, Created ''Product added successfully'' i2 (onions_stored t2 (Some i2))),
     calls = [InsertOneCall (''shop'', ''products'') (onions_stored t2 None)]\<rparr>,
    \<lparr>sent = Some (200, Products (sort_key (\<lambda>d. - createdAt d) (sort_key tie
               [tomatoes_stored (Finite (7 / 2)) t1 (Some i1), onions_stored t2 (Some i2)]))),
     calls = [FindCall (''shop'', ''products'')]\<rparr>,
    \<lparr>sent = Some (200, Products (sort_key (\<lambda>d. - createdAt d) (sort_key tie'
               [tomatoes_stored (Finite (7 / 2)) t1 (Some i1), onions_stored t2 (Some i2)]))),
     calls = [FindCall (''shop'', ''products'')]\<rparr>]"
  by (simp add: run_Cons_snd run_Cons_fst
        step_post_created [OF ready_simps productData_tomatoes]
        step_post_created [OF ready_simps productData_onions]
        step_get_found [OF ready_simps] stored_doc_id no_documents_def del: run.simps(2))

lemma run_two_posts_get:
  "snd (run pathname
     [PostRequest tomatoes t1 (Resolves i1), PostRequest onions t2 (Resolves i2),
      GetRequest (Resolves tie)]
     (ready, no_documents)) =
   [\<lparr>sent = Some (201, Created ''Product added successfully'' i1
              (tomatoes_stored (Finite (7 / 2)) t1 (Some i1))),
     calls = [InsertOneCall (''shop'', ''products'') (tomatoes_stored (Finite (7 / 2)) t1 None)]\<rparr>,
    \<lparr>sent = Some (201, Created ''Product added successfully'' i2 (onions_stored t2 (Some i2))),
     calls = [InsertOneCall (''shop'', ''products'') (onions_stored t2 None)]\<rparr>,
    \<lparr>sent = Some (200, Products (sort_key (\<lambda>d. - createdAt d) (sort_key tie
               [tomatoes_stored (Finite (7 / 2)) t1 (Some i1), onions_stored t2 (Some i2)]))),
     calls = [FindCall (''shop'', ''products'')]\<rparr>]"
  by (simp add: run_Cons_snd run_Cons_fst
        step_post_created [OF ready_simps productData_tomatoes]
        step_post_created [OF ready_simps productData_onions]
        step_get_found [OF ready_simps] stored_doc_id no_documents_def del: run.simps(2))

subsection \<open>Listing order\<close>

lemma sorted_newest_first:
  "sorted_wrt (\<lambda>a b. createdAt b \<le> createdAt a) (sort_key (\<lambda>d. - createdAt d) docs)"
  using sorted_sort_key [of "\<lambda>d. - createdAt d" docs] by (simp add: sorted_map)

lemma newer_listed_before:
  assumes sorted: "sorted_wrt (\<lambda>a b. createdAt b \<le> createdAt a) rs"
    and x: "x \<in> set rs" and y: "y \<in> set rs" and newer: "createdAt y < createdAt x"
  shows "listed_before x y rs"
proof -
  let ?head = "takeWhile (\<lambda>z. z \<noteq> x) rs" and ?rest = "dropWhile (\<lambda>z. z \<noteq> x) rs"
  have split: "rs = ?head @ ?rest" by simp
  from x have "?rest \<noteq> []" by auto
  then have "hd ?rest = x" using hd_dropWhile [of "\<lambda>z. z \<noteq> x" rs] by simp
  with \<open>?rest \<noteq> []\<close> have xin: "x \<in> set ?rest" by (metis list.set_sel(1))
  have nothead: "y \<notin> set ?head"
  proof
    assume "y \<in> set ?head"
    with sorted xin have "createdAt x \<le> createdAt y"
      by (subst (asm) split) (auto simp: sorted_wrt_append simp del: takeWhile_dropWhile_id)
    with newer show False by simp
  qed
  from y have "y \<in> set ?head \<or> y \<in> set ?rest"
    by (subst (asm) split) (simp del: takeWhile_dropWhile_id)
  with nothead show ?thesis by (simp add: listed_before_def)
qed

lemma listed_before_pair: "x \<noteq> y \<Longrightarrow> listed_before x y [x, y] \<and> \<not> listed_before y x [x, y]"
  by (simp add: listed_before_def)

text \<open>With no two \<open>createdAt\<close> alike, the order does not depend on the store's ranking.\<close>

lemma distinct_stamps_one_order:
  fixes docs :: "listing list"
  assumes "distinct (map createdAt docs)"
  shows "sort_key (\<lambda>d. - createdAt d) (sort_key tie docs) =
         sort_key (\<lambda>d. - createdAt d) (sort_key tie' docs)"
proof (rule map_sorted_distinct_set_unique [where f = "\<lambda>d. - createdAt d"])
  let ?f = "\<lambda>d :: listing. - createdAt d"
  from assms have inj: "inj_on ?f (set docs)" and "distinct docs"
    by (auto simp: distinct_map inj_on_def)
  then have d: "distinct (map ?f docs)"
    by (simp add: distinct_map)
  show "inj_on ?f (set (sort_key ?f (sort_key tie docs)) \<union> set (sort_key ?f (sort_key tie' docs)))"
    using inj by simp
  show "sorted (map ?f (sort_key ?f (sort_key tie docs)))"
    and "sorted (map ?f (sort_key ?f (sort_key tie' docs)))"
    by (rule sorted_sort_key)+
  have "mset (map ?f (sort_key ?f (sort_key tie docs))) = mset (map ?f docs)"
    and "mset (map ?f (sort_key ?f (sort_key tie' docs))) = mset (map ?f docs)"
    by simp_all
  with d show "distinct (map ?f (sort_key ?f (sort_key tie docs)))"
    and "distinct (map ?f (sort_key ?f (sort_key tie' docs)))"
    by (metis mset_eq_imp_distinct_iff)+
  show "set (sort_key ?f (sort_key tie docs)) = set (sort_key ?f (sort_key tie' docs))"
    by simp
qed

subsection \<open>Requests before the store is connected\<close>

text \<open>
  C4. A POST or a GET that arrives while \<^verbatim>\<open>productsCollection\<close> is unset is
  answered with status 500 and the message \<^verbatim>\<open>Database not connected.\<close>; the
  handler makes no call on the store, the store is unchanged, and the process is as
  before (in particular it has not exited).
\<close>

theorem unconnected_request_unavailable:
  assumes "productsCollection p = None" and "exited p = None"
  shows "step pathname (PostRequest b now oc) (p, db) =
           ((p, db), \<lparr>sent = Some (500, Message ''Database not connected.''), calls = []\<rparr>) \<and>
         step pathname (GetRequest oc') (p, db) =
           ((p, db), \<lparr>sent = Some (500, Message ''Database not connected.''), calls = []\<rparr>)"
  using assms by (simp add: step_def post_products_def get_products_def)

text \<open>The theorem at the initial state, with the sample body.\<close>

theorem unconnected_request_unavailable_witness:
  "productsCollection start = None \<and> exited start = None \<and>
   step None (PostRequest tomatoes 1000 (Resolves 1)) (start, no_documents) =
     ((start, no_documents),
      \<lparr>sent = Some (500, Message ''Database not connected.''), calls = []\<rparr>) \<and>
   step None (GetRequest (Resolves no_preference)) (start, no_documents) =
     ((start, no_documents),
      \<lparr>sent = Some (500, Message ''Database not connected.''), calls = []\<rparr>)"
  using unconnected_request_unavailable [where p = start and b = tomatoes and now = 1000
      and oc = "Resolves 1" and db = no_documents and pathname = None and oc' = "Resolves no_preference"]
  by (simp add: start_def)

subsection \<open>Store failures\<close>

text \<open>
  C5. With the handle set, a POST whose \<^verbatim>\<open>insertOne\<close> call rejects is answered with
  status 400 and \<^verbatim>\<open>{ message: 'Error adding product', error }\<close>, and a GET whose
  retrieval rejects with status 500 and
  \<^verbatim>\<open>{ message: 'Error fetching products', error }\<close>, where \<^verbatim>\<open>error\<close> is the
  failure's message as it is. Each handler has made exactly one call on the store: the
  failure is not retried.
\<close>

theorem store_failure_reported:
  assumes "productsCollection p = Some h" and "exited p = None"
    and "productData b now = Inr d"
  shows "step pathname (PostRequest b now (Rejects m)) (p, db) =
           ((p, db), \<lparr>sent = Some (400, Failed ''Error adding product'' m),
                      calls = [InsertOneCall h d]\<rparr>) \<and>
         step pathname (GetRequest (Rejects m)) (p, db) =
           ((p, db), \<lparr>sent = Some (500, Failed ''Error fetching products'' m),
                      calls = [FindCall h]\<rparr>)"
  using assms
  by (simp add: step_def post_products_def get_products_def insertOne_def find_sort_toArray_def)

text \<open>The theorem for the sample body and a message that holds markup.\<close>

theorem store_failure_reported_witness:
  "productsCollection ready = Some (''shop'', ''products'') \<and> exited ready = None \<and>
   productData tomatoes 1000 = Inr (tomatoes_stored (Finite (7 / 2)) 1000 None) \<and>
   step None (PostRequest tomatoes 1000 (Rejects ''<b>E11000</b>'')) (ready, no_documents) =
     ((ready, no_documents),
      \<lparr>sent = Some (400, Failed ''Error adding product'' ''<b>E11000</b>''),
       calls = [InsertOneCall (''shop'', ''products'')
                  (tomatoes_stored (Finite (7 / 2)) 1000 None)]\<rparr>) \<and>
   step None (GetRequest (Rejects ''<b>E11000</b>'')) (ready, no_documents) =
     ((ready, no_documents),
      \<lparr>sent = Some (500, Failed ''Error fetching products'' ''<b>E11000</b>''),
       calls = [FindCall (''shop'', ''products'')]\<rparr>)"
  using ready_simps productData_tomatoes [of 1000]
    store_failure_reported [OF ready_simps productData_tomatoes [of 1000],
      where pathname = None and m = "''<b>E11000</b>''" and db = no_documents]
  by blast

subsection \<open>Only four properties of the body are read\<close>

text \<open>
  C9. Two POST bodies that agree on \<^verbatim>\<open>productName\<close>, \<^verbatim>\<open>productDescription\<close>,
  \<^verbatim>\<open>productPrice\<close> and \<^verbatim>\<open>contactInfo\<close> get the same response, make the same
  store call and leave the same store, under the same clock reading and the same
  generated identifier: nothing else in the body has any effect.
\<close>

theorem post_reads_four_fields:
  assumes "same_listing_fields b b'"
  shows "step pathname (PostRequest b now oc) s = step pathname (PostRequest b' now oc) s"
proof -
  have "post_products pc b now oc db = post_products pc b' now oc db" for pc db
    unfolding post_products_def productData_same [OF assms] by (rule refl)
  then show ?thesis
    by (cases s) (simp add: step_def cong: if_cong)
qed

text \<open>The sample body, and the same with \<^verbatim>\<open>_id\<close>, \<^verbatim>\<open>createdAt\<close> and
  \<^verbatim>\<open>admin\<close> added.\<close>

theorem post_reads_four_fields_witness:
  "same_listing_fields tomatoes tomatoes_extra \<and> tomatoes \<noteq> tomatoes_extra \<and>
   step None (PostRequest tomatoes 1000 (Resolves 1))
      (start\<lparr>productsCollection := Some (''shop'', ''products'')\<rparr>, no_documents) =
   step None (PostRequest tomatoes_extra 1000 (Resolves 1))
      (start\<lparr>productsCollection := Some (''shop'', ''products'')\<rparr>, no_documents)"
proof -
  have same: "same_listing_fields tomatoes tomatoes_extra"
    by (simp add: same_listing_fields_def tomatoes_def tomatoes_extra_def body_field_def)
  have "tomatoes \<noteq> tomatoes_extra"
    by (simp add: tomatoes_def tomatoes_extra_def)
  with same post_reads_four_fields [OF same] show ?thesis by simp
qed

subsection \<open>Readiness\<close>

text \<open>
  C10. In every state the process reaches from its start: once the handle is set it
  stays set to the same collection whatever happens next, and no later request is
  answered \<^verbatim>\<open>Database not connected.\<close>; and if some request so far was served
  with a call on the store, the handle is set.
\<close>

theorem readiness_monotone:
  assumes "run pathname es (start, db) = (s, rs)"
  shows "(productsCollection (fst s) = Some h \<longrightarrow>
            productsCollection (fst (fst (run pathname es' s))) = Some h \<and>
            (\<forall>r \<in> set (snd (run pathname es' s)).
               sent r \<noteq> Some (500, Message ''Database not connected.''))) \<and>
         ((\<exists>r \<in> set rs. calls r \<noteq> []) \<longrightarrow> productsCollection (fst s) \<noteq> None)"
proof -
  have s: "s = fst (run pathname es (start, db))" and rs: "rs = snd (run pathname es (start, db))"
    using assms by simp_all
  have inv: "assigned_after_startup s"
    unfolding s using start_assigned_after_startup by (rule run_assigned_after_startup)
  have kept: "productsCollection (fst s) = Some h \<Longrightarrow>
      productsCollection (fst (fst (run pathname es' s))) = Some h \<and>
      (\<forall>r \<in> set (snd (run pathname es' s)). sent r \<noteq> Some not_connected)"
    using inv by (rule run_same_handle)
  have "\<forall>r \<in> set rs. calls r = []" if "productsCollection (fst s) = None"
    using run_unconnected_quiet [of pathname es "(start, db)"] that unfolding s rs by blast
  with kept show ?thesis
    unfolding not_connected_def by blast
qed

text \<open>
  A startup for \<^verbatim>\<open>/shop\<close> followed by a GET; then a stray ping result, an
  interrupt and a GET that fails: the handle is kept and the answer is not
  \<^verbatim>\<open>Database not connected.\<close>
\<close>

theorem readiness_monotone_witness:
  "run (Some ''/shop'')
     [ConnectSettles (Resolves ()), PingSettles (Resolves ()), GetRequest (Resolves no_preference)]
     (start, no_documents) =
     ((ready, no_documents),
      [silent, silent,
       \<lparr>sent = Some (200, Products []), calls = [FindCall (''shop'', ''products'')]\<rparr>]) \<and>
   productsCollection ready = Some (''shop'', ''products'') \<and>
   productsCollection (fst (fst (run (Some ''/shop'')
     [PingSettles (Resolves ()), Sigint, GetRequest (Rejects ''closed'')]
     (ready, no_documents)))) = Some (''shop'', ''products'') \<and>
   map sent (snd (run (Some ''/shop'')
     [PingSettles (Resolves ()), Sigint, GetRequest (Rejects ''closed'')]
     (ready, no_documents))) =
     [None, None, Some (500, Failed ''Error fetching products'' ''closed'')]"
proof -
  have reach: "run (Some ''/shop'')
     [ConnectSettles (Resolves ()), PingSettles (Resolves ()), GetRequest (Resolves no_preference)]
     (start, no_documents) =
     ((ready, no_documents),
      [silent, silent,
       \<lparr>sent = Some (200, Products []), calls = [FindCall (''shop'', ''products'')]\<rparr>])"
    by (simp add: machine_defs ready_def)
  have later: "map sent (snd (run (Some ''/shop'')
     [PingSettles (Resolves ()), Sigint, GetRequest (Rejects ''closed'')]
     (ready, no_documents))) =
     [None, None, Some (500, Failed ''Error fetching products'' ''closed'')]"
    by (simp add: machine_defs ready_def)
  have handle: "productsCollection ready = Some (''shop'', ''products'')"
    by (simp add: ready_def)
  from readiness_monotone [OF reach, where h = "(''shop'', ''products'')"
      and es' = "[PingSettles (Resolves ()), Sigint, GetRequest (Rejects ''closed'')]"] handle
  have "productsCollection (fst (fst (run (Some ''/shop'')
     [PingSettles (Resolves ()), Sigint, GetRequest (Rejects ''closed'')]
     (ready, no_documents)))) = Some (''shop'', ''products'')"
    by (simp del: run.simps)
  with reach later handle show ?thesis
    by blast
qed

subsection \<open>Startup failure\<close>

text \<open>
  C6, as the code has it. In a state reached from the start, when the pending
  \<^verbatim>\<open>connect\<close> or the pending ping rejects, the process exits at once with code 1.
  Up to then no request has led to a call on the store, and each request that arrived
  was answered \<^verbatim>\<open>Database not connected.\<close> with status 500. After the exit nothing
  is answered and nothing is tried again, whatever events follow.
\<close>

theorem startup_failure_fatal:
  assumes "run pathname es (start, db) = (s, rs)" and "exited (fst s) = None"
    and "(startup (fst s) = AwaitConnect \<and> e = ConnectSettles (Rejects m)) \<or>
         (startup (fst s) = AwaitPing \<and> e = PingSettles (Rejects m))"
  shows "step pathname e s = (((fst s)\<lparr>exited := Some 1\<rparr>, snd s), silent) \<and>
         (\<forall>r \<in> set rs. calls r = [] \<and>
            (sent r = None \<or> sent r = Some (500, Message ''Database not connected.''))) \<and>
         run pathname es' (fst (step pathname e s)) =
           (fst (step pathname e s), replicate (length es') silent)"
proof -
  have s: "s = fst (run pathname es (start, db))" and rs: "rs = snd (run pathname es (start, db))"
    using assms(1) by simp_all
  have exit: "step pathname e s = (((fst s)\<lparr>exited := Some 1\<rparr>, snd s), silent)"
    using assms(2,3)
    by (cases s) (auto simp: step_def connect_settles_def ping_settles_def)
  have "assigned_after_startup s"
    unfolding s using start_assigned_after_startup by (rule run_assigned_after_startup)
  with assms(3) have "productsCollection (fst s) = None"
    by (cases "productsCollection (fst s)") (auto simp: assigned_after_startup_def)
  then have before: "\<forall>r \<in> set rs. calls r = [] \<and> (sent r = None \<or> sent r = Some not_connected)"
    unfolding s rs by (rule run_unconnected_quiet)
  have after: "run pathname es' (fst (step pathname e s)) =
      (fst (step pathname e s), replicate (length es') silent)"
    by (rule run_exited) (simp add: exit)
  from exit before after show ?thesis
    unfolding not_connected_def by blast
qed

text \<open>
  A GET, then the connection succeeds, then the ping fails; a POST, a GET and a late
  connection result follow the exit.
\<close>

theorem startup_failure_fatal_witness:
  "run None [GetRequest (Resolves no_preference), ConnectSettles (Resolves ())] (start, no_documents) =
     ((start\<lparr>startup := AwaitPing\<rparr>, no_documents),
      [\<lparr>sent = Some (500, Message ''Database not connected.''), calls = []\<rparr>, silent]) \<and>
   step None (PingSettles (Rejects ''timed out'')) (start\<lparr>startup := AwaitPing\<rparr>, no_documents) =
     ((start\<lparr>startup := AwaitPing, exited := Some 1\<rparr>, no_documents), silent) \<and>
   run None
     [PostRequest tomatoes 1000 (Resolves 11), GetRequest (Resolves no_preference),
      ConnectSettles (Resolves ())]
     (start\<lparr>startup := AwaitPing, exited := Some 1\<rparr>, no_documents) =
     ((start\<lparr>startup := AwaitPing, exited := Some 1\<rparr>, no_documents), [silent, silent, silent])"
proof -
  have reach: "run None [GetRequest (Resolves no_preference), ConnectSettles (Resolves ())] (start, no_documents) =
     ((start\<lparr>startup := AwaitPing\<rparr>, no_documents),
      [\<lparr>sent = Some (500, Message ''Database not connected.''), calls = []\<rparr>, silent])"
    by (simp add: machine_defs)
  have alive: "exited (fst (start\<lparr>startup := AwaitPing\<rparr>, no_documents)) = None"
    by (simp add: start_def)
  have fails: "(startup (fst (start\<lparr>startup := AwaitPing\<rparr>, no_documents)) = AwaitConnect \<and>
        PingSettles (Rejects ''timed out'') = ConnectSettles (Rejects ''timed out'')) \<or>
      (startup (fst (start\<lparr>startup := AwaitPing\<rparr>, no_documents)) = AwaitPing \<and>
        PingSettles (Rejects ''timed out'') = PingSettles (Rejects ''timed out''))"
    by simp
  note fatal = startup_failure_fatal [OF reach alive fails,
      where es' = "[PostRequest tomatoes 1000 (Resolves 11), GetRequest (Resolves no_preference),
                    ConnectSettles (Resolves ())]"]
  from fatal
  have exit: "step None (PingSettles (Rejects ''timed out'')) (start\<lparr>startup := AwaitPing\<rparr>, no_documents) =
     ((start\<lparr>startup := AwaitPing, exited := Some 1\<rparr>, no_documents), silent)"
    by (simp del: run.simps)
  from fatal
  have "run None
     [PostRequest tomatoes 1000 (Resolves 11), GetRequest (Resolves no_preference),
      ConnectSettles (Resolves ())]
     (start\<lparr>startup := AwaitPing, exited := Some 1\<rparr>, no_documents) =
     ((start\<lparr>startup := AwaitPing, exited := Some 1\<rparr>, no_documents), [silent, silent, silent])"
    unfolding exit by (simp add: numeral_3_eq_3 del: run.simps)
  with reach exit show ?thesis
    by (simp del: run.simps)
qed

text \<open>
  C6 as stated fails: the listener runs from the start, so a GET that arrives before
  the connection attempt is refused is answered, with status 500, in a run whose
  startup fails.
\<close>

theorem startup_failure_served_counterexample:
  "run None [GetRequest (Resolves no_preference), ConnectSettles (Rejects ''connection refused'')]
     (start, no_documents) =
     ((start\<lparr>exited := Some 1\<rparr>, no_documents),
      [\<lparr>sent = Some (500, Message ''Database not connected.''), calls = []\<rparr>, silent])"
  by (simp add: machine_defs)

subsection \<open>The database name\<close>

text \<open>
  When the connection and the ping succeed and \<^verbatim>\<open>new URL(uri)\<close> yields a path, the
  handle assigned is the \<^verbatim>\<open>products\<close> collection of the database named by the
  path without its leading slash; an absent path and the path \<^verbatim>\<open>/\<close> give the
  database \<^verbatim>\<open>test\<close>.
\<close>

lemma database_name_from_path:
  "fst (run (Some path) [ConnectSettles (Resolves ()), PingSettles (Resolves ())] (start, db)) =
     (start\<lparr>productsCollection := Some (dbName path, ''products''), startup := Returned\<rparr>, db) \<and>
   (path = [] \<or> path = ''/'' \<longrightarrow> dbName path = ''test'') \<and>
   (\<forall>n. path = CHR ''/'' # n \<and> n \<noteq> [] \<longrightarrow> dbName path = n)"
  by (auto simp: step_def start_def connect_settles_def ping_settles_def dbName_def)

lemma database_name_agromarketplace:
  "fst (run (Some ''/agromarketplace'') [ConnectSettles (Resolves ()), PingSettles (Resolves ())]
          (start, no_documents)) =
     (start\<lparr>productsCollection := Some (''agromarketplace'', ''products''), startup := Returned\<rparr>,
      no_documents)"
  using database_name_from_path [of "''/agromarketplace''" no_documents] by simp

text \<open>
  C7. The claim fails where \<^verbatim>\<open>new URL(uri)\<close> throws, as it does for a connection
  string that names several hosts: the connection and the ping succeed, line 39
  throws inside the \<^verbatim>\<open>try\<close>, and the \<^verbatim>\<open>catch\<close> of lines 45 to 49 ends the
  process with code 1. No database name is resolved, none defaults to \<^verbatim>\<open>test\<close>,
  and no handle is assigned.
\<close>

theorem unparsed_connection_string_exits:
  "run None [ConnectSettles (Resolves ()), PingSettles (Resolves ())] (start, no_documents) =
     ((start\<lparr>startup := AwaitPing, exited := Some 1\<rparr>, no_documents), [silent, silent]) \<and>
   productsCollection (start\<lparr>startup := AwaitPing, exited := Some 1\<rparr>) = None"
  by (simp add: machine_defs)

subsection \<open>Listing\<close>

text \<open>
  C2, as the code has it. With the handle set, a GET that succeeds answers with status
  200 and a sequence that holds exactly the documents of the collection, each as often
  as the collection does, in order of \<open>createdAt\<close> descending, however the store
  ranks documents of equal \<open>createdAt\<close>. After two POSTs in sequence of which the
  second has the strictly later \<open>createdAt\<close>, the GET lists the second POST's record
  before the first's.
\<close>

theorem get_lists_newest_first:
  assumes "productsCollection p = Some h" and "exited p = None"
  shows "(\<exists>rs. step pathname (GetRequest (Resolves tie)) (p, db) =
            ((p, db), \<lparr>sent = Some (200, Products rs), calls = [FindCall h]\<rparr>) \<and>
          mset rs = mset (db h) \<and>
          sorted_wrt (\<lambda>a b. createdAt b \<le> createdAt a) rs) \<and>
         (productData b1 t1 = Inr d1 \<and> productData b2 t2 = Inr d2 \<and> t1 < t2 \<longrightarrow>
          (\<exists>rs. snd (run pathname
                   [PostRequest b1 t1 (Resolves i1), PostRequest b2 t2 (Resolves i2),
                    GetRequest (Resolves tie)] (p, db)) =
             [\<lparr>sent = Some (201, Created ''Product added successfully'' i1 (d1\<lparr>doc_id := Some i1\<rparr>)),
               calls = [InsertOneCall h d1]\<rparr>,
              \<lparr>sent = Some (201, Created ''Product added successfully'' i2 (d2\<lparr>doc_id := Some i2\<rparr>)),
               calls = [InsertOneCall h d2]\<rparr>,
              \<lparr>sent = Some (200, Products rs), calls = [FindCall h]\<rparr>] \<and>
             listed_before (to_document (d2\<lparr>doc_id := Some i2\<rparr>))
               (to_document (d1\<lparr>doc_id := Some i1\<rparr>)) rs))"
proof (intro conjI impI)
  show "\<exists>rs. step pathname (GetRequest (Resolves tie)) (p, db) =
            ((p, db), \<lparr>sent = Some (200, Products rs), calls = [FindCall h]\<rparr>) \<and>
          mset rs = mset (db h) \<and>
          sorted_wrt (\<lambda>a b. createdAt b \<le> createdAt a) rs"
    using step_get_found [OF assms] by (simp add: sorted_newest_first)
next
  assume posts: "productData b1 t1 = Inr d1 \<and> productData b2 t2 = Inr d2 \<and> t1 < t2"
  let ?d1 = "d1\<lparr>doc_id := Some i1\<rparr>" and ?d2 = "d2\<lparr>doc_id := Some i2\<rparr>"
  let ?rs = "sort_key (\<lambda>d. - createdAt d)
               (sort_key tie (db h @ [to_document ?d1, to_document ?d2]))"
  from posts have stamps: "createdAt d1 = t1" "createdAt d2 = t2"
    using productData_fresh [of b1 t1 d1] productData_fresh [of b2 t2 d2] by simp_all
  have run: "snd (run pathname
                   [PostRequest b1 t1 (Resolves i1), PostRequest b2 t2 (Resolves i2),
                    GetRequest (Resolves tie)] (p, db)) =
             [\<lparr>sent = Some (201, Created ''Product added successfully'' i1 ?d1),
               calls = [InsertOneCall h d1]\<rparr>,
              \<lparr>sent = Some (201, Created ''Product added successfully'' i2 ?d2),
               calls = [InsertOneCall h d2]\<rparr>,
              \<lparr>sent = Some (200, Products ?rs), calls = [FindCall h]\<rparr>]"
    using assms posts
    by (simp add: run_Cons_snd run_Cons_fst step_post_created step_get_found del: run.simps(2))
  have "listed_before (to_document ?d2) (to_document ?d1) ?rs"
    by (rule newer_listed_before) (use posts stamps in \<open>simp_all add: sorted_newest_first\<close>)
  with run show "\<exists>rs. snd (run pathname
                   [PostRequest b1 t1 (Resolves i1), PostRequest b2 t2 (Resolves i2),
                    GetRequest (Resolves tie)] (p, db)) =
             [\<lparr>sent = Some (201, Created ''Product added successfully'' i1 ?d1),
               calls = [InsertOneCall h d1]\<rparr>,
              \<lparr>sent = Some (201, Created ''Product added successfully'' i2 ?d2),
               calls = [InsertOneCall h d2]\<rparr>,
              \<lparr>sent = Some (200, Products rs), calls = [FindCall h]\<rparr>] \<and>
             listed_before (to_document ?d2) (to_document ?d1) rs"
    by blast
qed

text \<open>The sample bodies posted at 1000 and at 1001, into an empty collection, and a
  store that would rank the tomatoes first.\<close>

theorem get_lists_newest_first_witness:
  "productsCollection ready = Some (''shop'', ''products'') \<and> exited ready = None \<and>
   productData tomatoes 1000 = Inr (tomatoes_stored (Finite (7 / 2)) 1000 None) \<and>
   productData onions 1001 = Inr (onions_stored 1001 None) \<and> (1000 :: int) < 1001 \<and>
   map sent (snd (run None
     [PostRequest tomatoes 1000 (Resolves 11), PostRequest onions 1001 (Resolves 12),
      GetRequest (Resolves no_preference)] (ready, no_documents))) =
     [Some (201, Created ''Product added successfully'' 11
              (tomatoes_stored (Finite (7 / 2)) 1000 (Some 11))),
      Some (201, Created ''Product added successfully'' 12 (onions_stored 1001 (Some 12))),
      Some (200, Products [onions_stored 1001 (Some 12),
                           tomatoes_stored (Finite (7 / 2)) 1000 (Some 11)])] \<and>
   listed_before (onions_stored 1001 (Some 12)) (tomatoes_stored (Finite (7 / 2)) 1000 (Some 11))
     [onions_stored 1001 (Some 12), tomatoes_stored (Finite (7 / 2)) 1000 (Some 11)]"
proof -
  have newer: "(1000 :: int) < 1001" by simp
  have explicit: "snd (run None
     [PostRequest tomatoes 1000 (Resolves 11), PostRequest onions 1001 (Resolves 12),
      GetRequest (Resolves no_preference)] (ready, no_documents)) =
     [\<lparr>sent = Some (201, Created ''Product added successfully'' 11
                (tomatoes_stored (Finite (7 / 2)) 1000 (Some 11))),
       calls = [InsertOneCall (''shop'', ''products'') (tomatoes_stored (Finite (7 / 2)) 1000 None)]\<rparr>,
      \<lparr>sent = Some (201, Created ''Product added successfully'' 12 (onions_stored 1001 (Some 12))),
       calls = [InsertOneCall (''shop'', ''products'') (onions_stored 1001 None)]\<rparr>,
      \<lparr>sent = Some (200, Products [onions_stored 1001 (Some 12),
                                   tomatoes_stored (Finite (7 / 2)) 1000 (Some 11)]),
       calls = [FindCall (''shop'', ''products'')]\<rparr>]"
    by (simp only: run_two_posts_get sort_newer_second [OF newer])
  from get_lists_newest_first [OF ready_simps, where pathname = None and db = no_documents
      and tie = no_preference
      and ?b1.0 = tomatoes and ?t1.0 = 1000 and ?d1.0 = "tomatoes_stored (Finite (7 / 2)) 1000 None"
      and ?b2.0 = onions and ?t2.0 = 1001 and ?d2.0 = "onions_stored 1001 None"
      and ?i1.0 = 11 and ?i2.0 = 12]
    productData_tomatoes [of 1000] productData_onions [of 1001] newer
  obtain rs where rs: "snd (run None
     [PostRequest tomatoes 1000 (Resolves 11), PostRequest onions 1001 (Resolves 12),
      GetRequest (Resolves no_preference)] (ready, no_documents)) =
       [\<lparr>sent = Some (201, Created ''Product added successfully'' 11
                  ((tomatoes_stored (Finite (7 / 2)) 1000 None)\<lparr>doc_id := Some 11\<rparr>)),
         calls = [InsertOneCall (''shop'', ''products'') (tomatoes_stored (Finite (7 / 2)) 1000 None)]\<rparr>,
        \<lparr>sent = Some (201, Created ''Product added successfully'' 12
                  ((onions_stored 1001 None)\<lparr>doc_id := Some 12\<rparr>)),
         calls = [InsertOneCall (''shop'', ''products'') (onions_stored 1001 None)]\<rparr>,
        \<lparr>sent = Some (200, Products rs), calls = [FindCall (''shop'', ''products'')]\<rparr>]"
    and before: "listed_before (to_document ((onions_stored 1001 None)\<lparr>doc_id := Some 12\<rparr>))
                   (to_document ((tomatoes_stored (Finite (7 / 2)) 1000 None)\<lparr>doc_id := Some 11\<rparr>)) rs"
    by blast
  from rs [unfolded stored_doc_id explicit]
  have "rs = [onions_stored 1001 (Some 12), tomatoes_stored (Finite (7 / 2)) 1000 (Some 11)]"
    by simp
  with before have "listed_before (onions_stored 1001 (Some 12))
      (tomatoes_stored (Finite (7 / 2)) 1000 (Some 11))
      [onions_stored 1001 (Some 12), tomatoes_stored (Finite (7 / 2)) 1000 (Some 11)]"
    by (simp only: stored_doc_id stored_to_document)
  moreover have "map sent (snd (run None
     [PostRequest tomatoes 1000 (Resolves 11), PostRequest onions 1001 (Resolves 12),
      GetRequest (Resolves no_preference)] (ready, no_documents))) =
     [Some (201, Created ''Product added successfully'' 11
              (tomatoes_stored (Finite (7 / 2)) 1000 (Some 11))),
      Some (201, Created ''Product added successfully'' 12 (onions_stored 1001 (Some 12))),
      Some (200, Products [onions_stored 1001 (Some 12),
                           tomatoes_stored (Finite (7 / 2)) 1000 (Some 11)])]"
    unfolding explicit by simp
  ultimately show ?thesis
    using ready_simps productData_tomatoes [of 1000] productData_onions [of 1001] newer
    by blast
qed

text \<open>
  C2 as stated fails for two POSTs in sequence that read the same millisecond from
  the clock, with a store that keeps documents of equal \<open>createdAt\<close> in insertion
  order, and, whatever the store's ranking, for a clock that is set to an earlier
  time between them: the GET lists the first POST's record first.
\<close>

theorem same_stamp_order_counterexample:
  "map sent (snd (run None
     [PostRequest tomatoes 1000 (Resolves 11), PostRequest onions 1000 (Resolves 12),
      GetRequest (Resolves no_preference)] (ready, no_documents))) =
     [Some (201, Created ''Product added successfully'' 11
              (tomatoes_stored (Finite (7 / 2)) 1000 (Some 11))),
      Some (201, Created ''Product added successfully'' 12 (onions_stored 1000 (Some 12))),
      Some (200, Products [tomatoes_stored (Finite (7 / 2)) 1000 (Some 11),
                           onions_stored 1000 (Some 12)])] \<and>
   \<not> listed_before (onions_stored 1000 (Some 12)) (tomatoes_stored (Finite (7 / 2)) 1000 (Some 11))
     [tomatoes_stored (Finite (7 / 2)) 1000 (Some 11), onions_stored 1000 (Some 12)] \<and>
   map sent (snd (run None
     [PostRequest tomatoes 1000 (Resolves 11), PostRequest onions 999 (Resolves 12),
      GetRequest (Resolves onions_first)] (ready, no_documents))) =
     [Some (201, Created ''Product added successfully'' 11
              (tomatoes_stored (Finite (7 / 2)) 1000 (Some 11))),
      Some (201, Created ''Product added successfully'' 12 (onions_stored 999 (Some 12))),
      Some (200, Products [tomatoes_stored (Finite (7 / 2)) 1000 (Some 11),
                           onions_stored 999 (Some 12)])] \<and>
   \<not> listed_before (onions_stored 999 (Some 12)) (tomatoes_stored (Finite (7 / 2)) 1000 (Some 11))
     [tomatoes_stored (Finite (7 / 2)) 1000 (Some 11), onions_stored 999 (Some 12)]"
proof -
  have earlier: "(999 :: int) < 1000"
    by simp
  have "map sent (snd (run None
     [PostRequest tomatoes 1000 (Resolves 11), PostRequest onions 1000 (Resolves 12),
      GetRequest (Resolves no_preference)] (ready, no_documents))) =
     [Some (201, Created ''Product added successfully'' 11
              (tomatoes_stored (Finite (7 / 2)) 1000 (Some 11))),
      Some (201, Created ''Product added successfully'' 12 (onions_stored 1000 (Some 12))),
      Some (200, Products [tomatoes_stored (Finite (7 / 2)) 1000 (Some 11),
                           onions_stored 1000 (Some 12)])]"
    unfolding run_two_posts_get sort_alike_no_preference by simp
  moreover have "map sent (snd (run None
     [PostRequest tomatoes 1000 (Resolves 11), PostRequest onions 999 (Resolves 12),
      GetRequest (Resolves onions_first)] (ready, no_documents))) =
     [Some (201, Created ''Product added successfully'' 11
              (tomatoes_stored (Finite (7 / 2)) 1000 (Some 11))),
      Some (201, Created ''Product added successfully'' 12 (onions_stored 999 (Some 12))),
      Some (200, Products [tomatoes_stored (Finite (7 / 2)) 1000 (Some 11),
                           onions_stored 999 (Some 12)])]"
    unfolding run_two_posts_get sort_older_second [OF earlier] by simp
  ultimately show ?thesis
    using listed_before_pair [OF stored_distinct [of "Finite (7 / 2)" 1000 "Some 11" 1000 "Some 12"]]
      listed_before_pair [OF stored_distinct [of "Finite (7 / 2)" 1000 "Some 11" 999 "Some 12"]]
    by blast
qed

subsection \<open>Reading is repeatable\<close>

text \<open>
  C8, as the code has it. A GET changes neither the process nor the store. With the
  handle set, a GET that succeeds and the same GET repeated with nothing in between
  return the same documents, each as often, both times by \<open>createdAt\<close> descending.
  The two sequences are identical when no two documents of the collection have the
  same \<open>createdAt\<close>, and when the store ranks documents of equal \<open>createdAt\<close> the
  same way both times.
\<close>

theorem get_repeatable:
  assumes "productsCollection p = Some h" and "exited p = None"
  shows "fst (step pathname (GetRequest oc) (p, db)) = (p, db) \<and>
         (\<exists>rs rs'.
            step pathname (GetRequest (Resolves tie)) (p, db) =
              ((p, db), \<lparr>sent = Some (200, Products rs), calls = [FindCall h]\<rparr>) \<and>
            step pathname (GetRequest (Resolves tie'))
                (fst (step pathname (GetRequest (Resolves tie)) (p, db))) =
              ((p, db), \<lparr>sent = Some (200, Products rs'), calls = [FindCall h]\<rparr>) \<and>
            mset rs' = mset rs \<and>
            sorted_wrt (\<lambda>a b. createdAt b \<le> createdAt a) rs \<and>
            sorted_wrt (\<lambda>a b. createdAt b \<le> createdAt a) rs' \<and>
            (distinct (map createdAt (db h)) \<longrightarrow> rs' = rs) \<and>
            (tie' = tie \<longrightarrow> rs' = rs))"
proof
  show "fst (step pathname (GetRequest oc) (p, db)) = (p, db)"
    by (simp add: step_def get_products_def split: option.splits sum.splits)
next
  let ?rs = "sort_key (\<lambda>d. - createdAt d) (sort_key tie (db h))"
  let ?rs' = "sort_key (\<lambda>d. - createdAt d) (sort_key tie' (db h))"
  have first: "step pathname (GetRequest (Resolves tie)) (p, db) =
      ((p, db), \<lparr>sent = Some (200, Products ?rs), calls = [FindCall h]\<rparr>)"
    by (rule step_get_found [OF assms])
  have second: "step pathname (GetRequest (Resolves tie'))
      (fst (step pathname (GetRequest (Resolves tie)) (p, db))) =
      ((p, db), \<lparr>sent = Some (200, Products ?rs'), calls = [FindCall h]\<rparr>)"
    unfolding first fst_conv by (rule step_get_found [OF assms])
  have "mset ?rs' = mset ?rs" by simp
  moreover have "sorted_wrt (\<lambda>a b. createdAt b \<le> createdAt a) ?rs"
    and "sorted_wrt (\<lambda>a b. createdAt b \<le> createdAt a) ?rs'"
    by (rule sorted_newest_first)+
  moreover have "distinct (map createdAt (db h)) \<longrightarrow> ?rs' = ?rs"
    using distinct_stamps_one_order [of "db h" tie' tie] by blast
  moreover have "tie' = tie \<longrightarrow> ?rs' = ?rs" by simp
  ultimately show "\<exists>rs rs'.
            step pathname (GetRequest (Resolves tie)) (p, db) =
              ((p, db), \<lparr>sent = Some (200, Products rs), calls = [FindCall h]\<rparr>) \<and>
            step pathname (GetRequest (Resolves tie'))
                (fst (step pathname (GetRequest (Resolves tie)) (p, db))) =
              ((p, db), \<lparr>sent = Some (200, Products rs'), calls = [FindCall h]\<rparr>) \<and>
            mset rs' = mset rs \<and>
            sorted_wrt (\<lambda>a b. createdAt b \<le> createdAt a) rs \<and>
            sorted_wrt (\<lambda>a b. createdAt b \<le> createdAt a) rs' \<and>
            (distinct (map createdAt (db h)) \<longrightarrow> rs' = rs) \<and>
            (tie' = tie \<longrightarrow> rs' = rs)"
    using first second by blast
qed

text \<open>
  A collection of two documents stamped 1000 and 1001, read by a store that has no
  preference and then by one that would rank the onions first: the same sequence. And
  a collection of two documents both stamped 1000, read twice by a store that ranks
  the onions first: the same sequence.
\<close>

theorem get_repeatable_witness:
  "productsCollection ready = Some (''shop'', ''products'') \<and> exited ready = None \<and>
   distinct (map createdAt (two_listings (''shop'', ''products''))) \<and>
   step None (GetRequest (Resolves no_preference)) (ready, two_listings) =
     ((ready, two_listings),
      \<lparr>sent = Some (200, Products [onions_stored 1001 (Some 12),
                                  tomatoes_stored (Finite (7 / 2)) 1000 (Some 11)]),
       calls = [FindCall (''shop'', ''products'')]\<rparr>) \<and>
   step None (GetRequest (Resolves onions_first)) (ready, two_listings) =
     ((ready, two_listings),
      \<lparr>sent = Some (200, Products [onions_stored 1001 (Some 12),
                                  tomatoes_stored (Finite (7 / 2)) 1000 (Some 11)]),
       calls = [FindCall (''shop'', ''products'')]\<rparr>) \<and>
   step None (GetRequest (Resolves onions_first))
       (fst (step None (GetRequest (Resolves onions_first)) (ready, tied_listings))) =
     ((ready, tied_listings),
      \<lparr>sent = Some (200, Products [onions_stored 1000 (Some 12),
                                  tomatoes_stored (Finite (7 / 2)) 1000 (Some 11)]),
       calls = [FindCall (''shop'', ''products'')]\<rparr>)"
proof -
  have newer: "(1000 :: int) < 1001" by simp
  have stamps: "distinct (map createdAt (two_listings (''shop'', ''products'')))"
    by (simp add: two_listings_def tomatoes_stored_def onions_stored_def)
  have first: "step None (GetRequest (Resolves no_preference)) (ready, two_listings) =
     ((ready, two_listings),
      \<lparr>sent = Some (200, Products [onions_stored 1001 (Some 12),
                                  tomatoes_stored (Finite (7 / 2)) 1000 (Some 11)]),
       calls = [FindCall (''shop'', ''products'')]\<rparr>)"
  proof -
    have held: "two_listings (''shop'', ''products'') =
        [tomatoes_stored (Finite (7 / 2)) 1000 (Some 11), onions_stored 1001 (Some 12)]"
      by (simp add: two_listings_def)
    show ?thesis
      unfolding step_get_found [OF ready_simps] held sort_newer_second [OF newer] ..
  qed
  have tied: "step None (GetRequest (Resolves onions_first)) (ready, tied_listings) =
     ((ready, tied_listings),
      \<lparr>sent = Some (200, Products [onions_stored 1000 (Some 12),
                                  tomatoes_stored (Finite (7 / 2)) 1000 (Some 11)]),
       calls = [FindCall (''shop'', ''products'')]\<rparr>)"
  proof -
    have held: "tied_listings (''shop'', ''products'') =
        [tomatoes_stored (Finite (7 / 2)) 1000 (Some 11), onions_stored 1000 (Some 12)]"
      by (simp add: tied_listings_def)
    show ?thesis
      unfolding step_get_found [OF ready_simps] held sort_alike_onions_first ..
  qed
  from get_repeatable [OF ready_simps, where pathname = None and db = two_listings
      and tie = no_preference and tie' = onions_first and oc = "Resolves no_preference"]
  obtain rs rs' where
    one: "step None (GetRequest (Resolves no_preference)) (ready, two_listings) =
      ((ready, two_listings), \<lparr>sent = Some (200, Products rs),
        calls = [FindCall (''shop'', ''products'')]\<rparr>)"
    and two: "step None (GetRequest (Resolves onions_first))
        (fst (step None (GetRequest (Resolves no_preference)) (ready, two_listings))) =
      ((ready, two_listings), \<lparr>sent = Some (200, Products rs'),
        calls = [FindCall (''shop'', ''products'')]\<rparr>)"
    and same: "distinct (map createdAt (two_listings (''shop'', ''products''))) \<longrightarrow> rs' = rs"
    by blast
  from one first have "rs = [onions_stored 1001 (Some 12),
      tomatoes_stored (Finite (7 / 2)) 1000 (Some 11)]"
    by simp
  with same stamps have "rs' = [onions_stored 1001 (Some 12),
      tomatoes_stored (Finite (7 / 2)) 1000 (Some 11)]"
    by simp
  with two have second: "step None (GetRequest (Resolves onions_first)) (ready, two_listings) =
     ((ready, two_listings),
      \<lparr>sent = Some (200, Products [onions_stored 1001 (Some 12),
                                  tomatoes_stored (Finite (7 / 2)) 1000 (Some 11)]),
       calls = [FindCall (''shop'', ''products'')]\<rparr>)"
    unfolding first fst_conv by simp
  from get_repeatable [OF ready_simps, where pathname = None and db = tied_listings
      and tie = onions_first and tie' = onions_first and oc = "Resolves onions_first"]
  obtain ts ts' where
    one': "step None (GetRequest (Resolves onions_first)) (ready, tied_listings) =
      ((ready, tied_listings), \<lparr>sent = Some (200, Products ts),
        calls = [FindCall (''shop'', ''products'')]\<rparr>)"
    and two': "step None (GetRequest (Resolves onions_first))
        (fst (step None (GetRequest (Resolves onions_first)) (ready, tied_listings))) =
      ((ready, tied_listings), \<lparr>sent = Some (200, Products ts'),
        calls = [FindCall (''shop'', ''products'')]\<rparr>)"
    and same': "onions_first = onions_first \<longrightarrow> ts' = ts"
    by blast
  from one' tied have "ts = [onions_stored 1000 (Some 12),
      tomatoes_stored (Finite (7 / 2)) 1000 (Some 11)]"
    by simp
  with same' have "ts' = [onions_stored 1000 (Some 12),
      tomatoes_stored (Finite (7 / 2)) 1000 (Some 11)]"
    by simp
  with two' have again: "step None (GetRequest (Resolves onions_first))
       (fst (step None (GetRequest (Resolves onions_first)) (ready, tied_listings))) =
     ((ready, tied_listings),
      \<lparr>sent = Some (200, Products [onions_stored 1000 (Some 12),
                                  tomatoes_stored (Finite (7 / 2)) 1000 (Some 11)]),
       calls = [FindCall (''shop'', ''products'')]\<rparr>)"
    by simp
  from ready_simps stamps first second again show ?thesis by blast
qed

text \<open>
  C8 as stated fails when two documents have the same \<open>createdAt\<close>: the store may
  return them in either order, so a GET and the same GET repeated, with no POST in
  between, can return different sequences.
\<close>

theorem tied_order_counterexample:
  "map sent (snd (run None
     [PostRequest tomatoes 1000 (Resolves 11), PostRequest onions 1000 (Resolves 12),
      GetRequest (Resolves no_preference), GetRequest (Resolves onions_first)]
     (ready, no_documents))) =
     [Some (201, Created ''Product added successfully'' 11
              (tomatoes_stored (Finite (7 / 2)) 1000 (Some 11))),
      Some (201, Created ''Product added successfully'' 12 (onions_stored 1000 (Some 12))),
      Some (200, Products [tomatoes_stored (Finite (7 / 2)) 1000 (Some 11),
                           onions_stored 1000 (Some 12)]),
      Some (200, Products [onions_stored 1000 (Some 12),
                           tomatoes_stored (Finite (7 / 2)) 1000 (Some 11)])] \<and>
   [tomatoes_stored (Finite (7 / 2)) 1000 (Some 11), onions_stored 1000 (Some 12)] \<noteq>
   [onions_stored 1000 (Some 12), tomatoes_stored (Finite (7 / 2)) 1000 (Some 11)]"
  unfolding run_two_posts_gets sort_alike_no_preference sort_alike_onions_first
  using stored_distinct [of "Finite (7 / 2)" 1000 "Some 11" 1000 "Some 12"]
  by simp

subsection \<open>Creating a listing\<close>

text \<open>
  C1, as the code has it. With the handle set, a body whose properties can be read and
  a \<^verbatim>\<open>productPrice\<close> that \<^verbatim>\<open>parseFloat\<close> accepts, a POST whose insertion succeeds
  builds a record that has \<^verbatim>\<open>productName\<close>, \<^verbatim>\<open>productDescription\<close> and
  \<^verbatim>\<open>contactInfo\<close> as they are in the body (absent ones \<^verbatim>\<open>undefined\<close>),
  \<^verbatim>\<open>parseFloat\<close> of the body's \<^verbatim>\<open>productPrice\<close> as its price, the clock reading
  as \<^verbatim>\<open>createdAt\<close> and the generated identifier. It answers with status 201, that
  identifier as \<^verbatim>\<open>insertedId\<close> and that record as \<^verbatim>\<open>product\<close>. The document
  stored is that record as the driver writes it: a parsed value as it is,
  \<^verbatim>\<open>undefined\<close> as \<^verbatim>\<open>null\<close>.
\<close>

theorem post_stores_listing:
  assumes "productsCollection p = Some h" and "exited p = None"
    and "body_field b ''productName'' = Inr n"
    and "body_field b ''productDescription'' = Inr ds"
    and "body_field b ''productPrice'' = Inr pr"
    and "body_field b ''contactInfo'' = Inr c"
    and "parseFloat pr = Inr price"
  shows "\<exists>built stored.
           step pathname (PostRequest b now (Resolves i)) (p, db) =
             ((p, db(h := db h @ [stored])),
              \<lparr>sent = Some (201, Created ''Product added successfully'' i built),
               calls = [InsertOneCall h (built\<lparr>doc_id := None\<rparr>)]\<rparr>) \<and>
           built = \<lparr>productName = n, productDescription = ds, productPrice = price,
                    contactInfo = c, createdAt = now, doc_id = Some i\<rparr> \<and>
           stored = \<lparr>productName = bson n, productDescription = bson ds, productPrice = price,
                     contactInfo = bson c, createdAt = now, doc_id = Some i\<rparr> \<and>
           bson Undefined = Null \<and> (\<forall>v. parsed v \<longrightarrow> bson v = v)"
proof -
  let ?d = "\<lparr>productName = n, productDescription = ds, productPrice = price,
             contactInfo = c, createdAt = now, doc_id = None\<rparr>"
  have "productData b now = Inr ?d"
    using assms(3-7) by (simp add: productData_def)
  from step_post_created [OF assms(1,2) this, of pathname i db] show ?thesis
    by (simp add: to_document_def bson_parsed)
qed

text \<open>The sample body without a description, at a process that is ready.\<close>

theorem post_stores_listing_witness:
  "productsCollection ready = Some (''shop'', ''products'') \<and> exited ready = None \<and>
   body_field undescribed ''productName'' = Inr (Str (js ''Tomatoes'')) \<and>
   body_field undescribed ''productDescription'' = Inr Undefined \<and>
   body_field undescribed ''productPrice'' = Inr (Str (js ''3.50'')) \<and>
   body_field undescribed ''contactInfo'' = Inr (Str (js ''farmer@example.com'')) \<and>
   parseFloat (Str (js ''3.50'')) = Inr (Finite (7 / 2)) \<and>
   parsed (Str (js ''Tomatoes'')) \<and> bson (Str (js ''Tomatoes'')) = Str (js ''Tomatoes'') \<and>
   step None (PostRequest undescribed 1000 (Resolves 11)) (ready, no_documents) =
     ((ready, no_documents((''shop'', ''products'') :=
         [\<lparr>productName = Str (js ''Tomatoes''), productDescription = Null,
           productPrice = Finite (7 / 2), contactInfo = Str (js ''farmer@example.com''),
           createdAt = 1000, doc_id = Some 11\<rparr>])),
      \<lparr>sent = Some (201, Created ''Product added successfully'' 11
         \<lparr>productName = Str (js ''Tomatoes''), productDescription = Undefined,
          productPrice = Finite (7 / 2), contactInfo = Str (js ''farmer@example.com''),
          createdAt = 1000, doc_id = Some 11\<rparr>),
       calls = [InsertOneCall (''shop'', ''products'')
         \<lparr>productName = Str (js ''Tomatoes''), productDescription = Undefined,
          productPrice = Finite (7 / 2), contactInfo = Str (js ''farmer@example.com''),
          createdAt = 1000, doc_id = None\<rparr>]\<rparr>)"
proof -
  have fields:
    "body_field undescribed ''productName'' = Inr (Str (js ''Tomatoes''))"
    "body_field undescribed ''productDescription'' = Inr Undefined"
    "body_field undescribed ''productPrice'' = Inr (Str (js ''3.50''))"
    "body_field undescribed ''contactInfo'' = Inr (Str (js ''farmer@example.com''))"
    by (simp_all add: body_field_def undescribed_def)
  note listing = post_stores_listing [OF ready_simps fields parseFloat_3_50,
      where pathname = None and now = 1000 and i = 11 and db = no_documents]
  have kept: "parsed (Str (js ''Tomatoes''))" by simp
  from listing have "parsed (Str (js ''Tomatoes'')) \<longrightarrow>
      bson (Str (js ''Tomatoes'')) = Str (js ''Tomatoes'')"
    by blast
  with kept have written: "bson (Str (js ''Tomatoes'')) = Str (js ''Tomatoes'')" by blast
  from listing
  have posted: "step None (PostRequest undescribed 1000 (Resolves 11)) (ready, no_documents) =
     ((ready, no_documents((''shop'', ''products'') :=
         [\<lparr>productName = Str (js ''Tomatoes''), productDescription = Null,
           productPrice = Finite (7 / 2), contactInfo = Str (js ''farmer@example.com''),
           createdAt = 1000, doc_id = Some 11\<rparr>])),
      \<lparr>sent = Some (201, Created ''Product added successfully'' 11
         \<lparr>productName = Str (js ''Tomatoes''), productDescription = Undefined,
          productPrice = Finite (7 / 2), contactInfo = Str (js ''farmer@example.com''),
          createdAt = 1000, doc_id = Some 11\<rparr>),
       calls = [InsertOneCall (''shop'', ''products'')
         \<lparr>productName = Str (js ''Tomatoes''), productDescription = Undefined,
          productPrice = Finite (7 / 2), contactInfo = Str (js ''farmer@example.com''),
          createdAt = 1000, doc_id = None\<rparr>]\<rparr>)"
    by (simp add: no_documents_def)
  from ready_simps fields parseFloat_3_50 kept written posted show ?thesis
    by blast
qed

text \<open>
  C1 as stated fails for \<^verbatim>\<open>productPrice\<close>: the body's string \<^verbatim>\<open>3.50\<close> is stored
  and returned as the number 3.5, not as it is. And a price that \<^verbatim>\<open>parseFloat\<close>
  cannot convert, \<^verbatim>\<open>{"toString": 1}\<close>, is not stored at all: the answer is 400.
\<close>

theorem price_not_verbatim_counterexample:
  "body_field tomatoes ''productPrice'' = Inr (Str (js ''3.50'')) \<and>
   step None (PostRequest tomatoes 1000 (Resolves 11)) (ready, no_documents) =
     ((ready, no_documents((''shop'', ''products'') :=
         [tomatoes_stored (Finite (7 / 2)) 1000 (Some 11)])),
      \<lparr>sent = Some (201, Created ''Product added successfully'' 11
                       (tomatoes_stored (Finite (7 / 2)) 1000 (Some 11))),
       calls = [InsertOneCall (''shop'', ''products'') (tomatoes_stored (Finite (7 / 2)) 1000 None)]\<rparr>) \<and>
   Num (productPrice (tomatoes_stored (Finite (7 / 2)) 1000 (Some 11))) \<noteq> Str (js ''3.50'') \<and>
   body_field (priced unprintable) ''productPrice'' = Inr unprintable \<and>
   step None (PostRequest (priced unprintable) 1000 (Resolves 11)) (ready, no_documents) =
     ((ready, no_documents),
      \<lparr>sent = Some (400, Failed ''Error adding product''
                       ''Cannot convert object to primitive value''),
       calls = []\<rparr>)"
proof -
  have "body_field tomatoes ''productPrice'' = Inr (Str (js ''3.50''))"
    by (simp add: body_field_def tomatoes_def)
  moreover have "step None (PostRequest tomatoes 1000 (Resolves 11)) (ready, no_documents) =
     ((ready, no_documents((''shop'', ''products'') :=
         [tomatoes_stored (Finite (7 / 2)) 1000 (Some 11)])),
      \<lparr>sent = Some (201, Created ''Product added successfully'' 11
                       (tomatoes_stored (Finite (7 / 2)) 1000 (Some 11))),
       calls = [InsertOneCall (''shop'', ''products'') (tomatoes_stored (Finite (7 / 2)) 1000 None)]\<rparr>)"
    using step_post_created [OF ready_simps productData_tomatoes [of 1000],
        where pathname = None and i = 11 and db = no_documents]
    by (simp add: stored_doc_id no_documents_def)
  moreover have "body_field (priced unprintable) ''productPrice'' = Inr unprintable"
    by (simp add: body_field_def priced_def)
  moreover have "step None (PostRequest (priced unprintable) 1000 (Resolves 11)) (ready, no_documents) =
     ((ready, no_documents),
      \<lparr>sent = Some (400, Failed ''Error adding product''
                       ''Cannot convert object to primitive value''),
       calls = []\<rparr>)"
    by (rule step_post_thrown [OF ready_simps productData_priced_thrown [OF parseFloat_unprintable]])
  ultimately show ?thesis by (simp add: tomatoes_stored_def)
qed

subsection \<open>The price\<close>

text \<open>
  C3, as the code has it. With the handle set and a body whose \<^verbatim>\<open>productPrice\<close> can
  be read: a price that cannot be converted to a string is rejected with status 400
  and nothing is stored. Every other price is accepted: a POST whose insertion
  succeeds is answered with status 201, and the record stored and the record returned
  have \<^verbatim>\<open>parseFloat\<close> of it as their price. That is not-a-number exactly when the
  value has no numeric prefix, as for \<^verbatim>\<open>abc\<close>; for \<^verbatim>\<open>3.50\<close> it is 3.5.
\<close>

theorem post_price_coerced:
  assumes "productsCollection p = Some h" and "exited p = None"
    and "body_field b ''productPrice'' = Inr pr"
  shows "(cannot_convert pr \<longrightarrow>
            step pathname (PostRequest b now (Resolves i)) (p, db) =
              ((p, db),
               \<lparr>sent = Some (400, Failed ''Error adding product''
                                ''Cannot convert object to primitive value''),
                calls = []\<rparr>)) \<and>
         (\<not> cannot_convert pr \<longrightarrow>
            (\<exists>built.
               step pathname (PostRequest b now (Resolves i)) (p, db) =
                 ((p, db(h := db h @ [to_document built])),
                  \<lparr>sent = Some (201, Created ''Product added successfully'' i built),
                   calls = [InsertOneCall h (built\<lparr>doc_id := None\<rparr>)]\<rparr>) \<and>
               parseFloat pr = Inr (productPrice built) \<and>
               productPrice (to_document built) = productPrice built \<and>
               (\<not> has_numeric_prefix pr \<longrightarrow> productPrice built = NaN) \<and>
               (has_numeric_prefix pr \<longrightarrow> productPrice built \<noteq> NaN) \<and>
               (pr = Str (js ''abc'') \<longrightarrow> productPrice built = NaN) \<and>
               (pr = Str (js ''3.50'') \<longrightarrow> productPrice built = Finite (7 / 2))))"
proof (intro conjI impI)
  obtain n where n: "body_field b ''productName'' = Inr n"
    using body_field_readable [OF assms(3)] by blast
  obtain ds where ds: "body_field b ''productDescription'' = Inr ds"
    using body_field_readable [OF assms(3)] by blast
  obtain c where c: "body_field b ''contactInfo'' = Inr c"
    using body_field_readable [OF assms(3)] by blast
  {
    assume "cannot_convert pr"
    then have "productData b now = Inl ''Cannot convert object to primitive value''"
      using n ds assms(3) by (simp add: productData_def parseFloat_def)
    then show "step pathname (PostRequest b now (Resolves i)) (p, db) =
        ((p, db),
         \<lparr>sent = Some (400, Failed ''Error adding product''
                          ''Cannot convert object to primitive value''),
          calls = []\<rparr>)"
      by (rule step_post_thrown [OF assms(1,2)])
  }
  {
    assume conv: "\<not> cannot_convert pr"
    let ?d = "\<lparr>productName = n, productDescription = ds, productPrice = parsed_number pr,
               contactInfo = c, createdAt = now, doc_id = None\<rparr>"
    have "productData b now = Inr ?d"
      using n ds c assms(3) conv by (simp add: productData_def parseFloat_def)
    from step_post_created [OF assms(1,2) this, of pathname i db] conv
    show "\<exists>built.
               step pathname (PostRequest b now (Resolves i)) (p, db) =
                 ((p, db(h := db h @ [to_document built])),
                  \<lparr>sent = Some (201, Created ''Product added successfully'' i built),
                   calls = [InsertOneCall h (built\<lparr>doc_id := None\<rparr>)]\<rparr>) \<and>
               parseFloat pr = Inr (productPrice built) \<and>
               productPrice (to_document built) = productPrice built \<and>
               (\<not> has_numeric_prefix pr \<longrightarrow> productPrice built = NaN) \<and>
               (has_numeric_prefix pr \<longrightarrow> productPrice built \<noteq> NaN) \<and>
               (pr = Str (js ''abc'') \<longrightarrow> productPrice built = NaN) \<and>
               (pr = Str (js ''3.50'') \<longrightarrow> productPrice built = Finite (7 / 2))"
      using parseFloat_abc parseFloat_3_50
      by (intro exI [of _ "?d\<lparr>doc_id := Some i\<rparr>"])
         (auto simp: parsed_number_NaN_iff parseFloat_def simp del: parsed_number.simps)
  }
qed

text \<open>The sample body priced \<^verbatim>\<open>abc\<close>, priced \<^verbatim>\<open>3.50\<close> and priced
  \<^verbatim>\<open>{"toString": 1}\<close>.\<close>

theorem post_price_coerced_witness:
  "productsCollection ready = Some (''shop'', ''products'') \<and> exited ready = None \<and>
   body_field (priced (Str (js ''abc''))) ''productPrice'' = Inr (Str (js ''abc'')) \<and>
   \<not> cannot_convert (Str (js ''abc'')) \<and> \<not> has_numeric_prefix (Str (js ''abc'')) \<and>
   step None (PostRequest (priced (Str (js ''abc''))) 1000 (Resolves 11)) (ready, no_documents) =
     ((ready, no_documents((''shop'', ''products'') := [tomatoes_stored NaN 1000 (Some 11)])),
      \<lparr>sent = Some (201, Created ''Product added successfully'' 11
                      (tomatoes_stored NaN 1000 (Some 11))),
       calls = [InsertOneCall (''shop'', ''products'') (tomatoes_stored NaN 1000 None)]\<rparr>) \<and>
   body_field (priced (Str (js ''3.50''))) ''productPrice'' = Inr (Str (js ''3.50'')) \<and>
   \<not> cannot_convert (Str (js ''3.50'')) \<and> has_numeric_prefix (Str (js ''3.50'')) \<and>
   step None (PostRequest (priced (Str (js ''3.50''))) 1000 (Resolves 11)) (ready, no_documents) =
     ((ready, no_documents((''shop'', ''products'') :=
         [tomatoes_stored (Finite (7 / 2)) 1000 (Some 11)])),
      \<lparr>sent = Some (201, Created ''Product added successfully'' 11
                      (tomatoes_stored (Finite (7 / 2)) 1000 (Some 11))),
       calls = [InsertOneCall (''shop'', ''products'') (tomatoes_stored (Finite (7 / 2)) 1000 None)]\<rparr>) \<and>
   body_field (priced unprintable) ''productPrice'' = Inr unprintable \<and>
   cannot_convert unprintable \<and>
   step None (PostRequest (priced unprintable) 1000 (Resolves 11)) (ready, no_documents) =
     ((ready, no_documents),
      \<lparr>sent = Some (400, Failed ''Error adding product''
                       ''Cannot convert object to primitive value''),
       calls = []\<rparr>)"
proof -
  have abc: "body_field (priced (Str (js ''abc''))) ''productPrice'' = Inr (Str (js ''abc''))"
    and num: "body_field (priced (Str (js ''3.50''))) ''productPrice'' = Inr (Str (js ''3.50''))"
    and obj: "body_field (priced unprintable) ''productPrice'' = Inr unprintable"
    by (simp_all add: body_field_def priced_def)
  have conv: "\<not> cannot_convert (Str (js ''abc''))" "\<not> cannot_convert (Str (js ''3.50''))"
    and thrown: "cannot_convert unprintable"
    by (simp_all add: unprintable_def)
  have no_prefix: "\<not> has_numeric_prefix (Str (js ''abc''))"
    using parsed_number_NaN_iff [of "Str (js ''abc'')"] parseFloat_abc
    by (simp add: parseFloat_def del: parsed_number.simps has_numeric_prefix.simps)
  have prefix: "has_numeric_prefix (Str (js ''3.50''))"
    using parsed_number_NaN_iff [of "Str (js ''3.50'')"] parseFloat_3_50
    by (simp add: parseFloat_def del: parsed_number.simps has_numeric_prefix.simps)
  have rejected: "step None (PostRequest (priced unprintable) 1000 (Resolves 11)) (ready, no_documents) =
     ((ready, no_documents),
      \<lparr>sent = Some (400, Failed ''Error adding product''
                       ''Cannot convert object to primitive value''),
       calls = []\<rparr>)"
    using post_price_coerced [OF ready_simps obj,
        where pathname = None and now = 1000 and i = 11 and db = no_documents] thrown
    by blast
  obtain s1 where s1:
      "step None (PostRequest (priced (Str (js ''abc''))) 1000 (Resolves 11)) (ready, no_documents) =
        ((ready, no_documents((''shop'', ''products'') :=
            no_documents (''shop'', ''products'') @ [to_document s1])),
         \<lparr>sent = Some (201, Created ''Product added successfully'' 11 s1),
          calls = [InsertOneCall (''shop'', ''products'') (s1\<lparr>doc_id := None\<rparr>)]\<rparr>)"
      "productPrice s1 = NaN"
    using post_price_coerced [OF ready_simps abc,
        where pathname = None and now = 1000 and i = 11 and db = no_documents] conv no_prefix
    by blast
  obtain s2 where s2:
      "step None (PostRequest (priced (Str (js ''3.50''))) 1000 (Resolves 11)) (ready, no_documents) =
        ((ready, no_documents((''shop'', ''products'') :=
            no_documents (''shop'', ''products'') @ [to_document s2])),
         \<lparr>sent = Some (201, Created ''Product added successfully'' 11 s2),
          calls = [InsertOneCall (''shop'', ''products'') (s2\<lparr>doc_id := None\<rparr>)]\<rparr>)"
      "productPrice s2 = Finite (7 / 2)"
    using post_price_coerced [OF ready_simps num,
        where pathname = None and now = 1000 and i = 11 and db = no_documents] conv
    by blast
  have e1: "step None (PostRequest (priced (Str (js ''abc''))) 1000 (Resolves 11)) (ready, no_documents) =
     ((ready, no_documents((''shop'', ''products'') := [tomatoes_stored NaN 1000 (Some 11)])),
      \<lparr>sent = Some (201, Created ''Product added successfully'' 11
                      (tomatoes_stored NaN 1000 (Some 11))),
       calls = [InsertOneCall (''shop'', ''products'') (tomatoes_stored NaN 1000 None)]\<rparr>)"
    using step_post_created [OF ready_simps productData_priced [OF parseFloat_abc, of 1000],
        where pathname = None and i = 11 and db = no_documents]
    by (simp add: stored_doc_id no_documents_def)
  have e2: "step None (PostRequest (priced (Str (js ''3.50''))) 1000 (Resolves 11)) (ready, no_documents) =
     ((ready, no_documents((''shop'', ''products'') :=
         [tomatoes_stored (Finite (7 / 2)) 1000 (Some 11)])),
      \<lparr>sent = Some (201, Created ''Product added successfully'' 11
                      (tomatoes_stored (Finite (7 / 2)) 1000 (Some 11))),
       calls = [InsertOneCall (''shop'', ''products'') (tomatoes_stored (Finite (7 / 2)) 1000 None)]\<rparr>)"
    using step_post_created [OF ready_simps productData_priced [OF parseFloat_3_50, of 1000],
        where pathname = None and i = 11 and db = no_documents]
    by (simp add: stored_doc_id no_documents_def)
  from ready_simps abc num obj conv thrown no_prefix prefix rejected e1 e2 s1 s2
  show ?thesis by blast
qed

text \<open>
  C3 as stated fails twice. A price that is not numeric but starts with digits,
  \<^verbatim>\<open>12abc\<close>, is stored and returned as the number 12. And a price that is not
  numeric and cannot be converted to a string, \<^verbatim>\<open>{"toString": 1}\<close>, is rejected
  with status 400.
\<close>

theorem leading_digits_counterexample:
  "\<not> numeric_text (js ''12abc'') \<and>
   step None (PostRequest (priced (Str (js ''12abc''))) 1000 (Resolves 11)) (ready, no_documents) =
     ((ready, no_documents((''shop'', ''products'') := [tomatoes_stored (Finite 12) 1000 (Some 11)])),
      \<lparr>sent = Some (201, Created ''Product added successfully'' 11
                      (tomatoes_stored (Finite 12) 1000 (Some 11))),
       calls = [InsertOneCall (''shop'', ''products'') (tomatoes_stored (Finite 12) 1000 None)]\<rparr>) \<and>
   productPrice (tomatoes_stored (Finite 12) 1000 (Some 11)) \<noteq> NaN \<and>
   step None (PostRequest (priced unprintable) 1000 (Resolves 11)) (ready, no_documents) =
     ((ready, no_documents),
      \<lparr>sent = Some (400, Failed ''Error adding product''
                       ''Cannot convert object to primitive value''),
       calls = []\<rparr>)"
  using step_post_created [OF ready_simps productData_priced [OF parseFloat_12abc, of 1000],
      where pathname = None and i = 11 and db = no_documents]
    step_post_thrown [OF ready_simps productData_priced_thrown [OF parseFloat_unprintable],
      where pathname = None and now = 1000 and oc = "Resolves 11" and db = no_documents]
    not_numeric_12abc
  by (simp add: stored_doc_id no_documents_def) (simp add: tomatoes_stored_def)

end
